theory Spec2Isabelle
  imports Main "HOL-Library.Word"
begin

section \<open>Job scheduler: a shallow embedding of the Go sources\<close>

text \<open>
  The embedding follows the three Go packages of the scheduler core:
  the executor (Execute, handleTimeout, forceKill, KillProcess, Cleanup, LimitedWriter),
  the job types (JobStatus, JobPayload, Validate, ChannelStats, Config) and the
  scheduler with its channel processors (NewScheduler, SubmitJob, getOrCreateChannel,
  updateStatsForNewJob, Shutdown, NewProcessor, Start, processJob).

  Conventions. A Go struct is a record, its fields prefixed with a short tag because
  several structs share field names. A Go \<open>error\<close> is a value of \<open>go_error option\<close>
  (\<open>None\<close> is \<open>nil\<close>). Everything the operating system, the clock or the Go runtime
  decides (what a child process does, which case of a \<open>select\<close> fires, what
  \<open>time.Now()\<close> returns) is an explicit argument of the function that observes it.
  A buffered Go channel is a record of its buffer and capacity. A panic is the
  outcome \<open>Panic\<close>.
\<close>

subsection \<open>Basic types\<close>

type_synonym byte = "8 word"

text \<open>\<open>time.Time\<close> as an abstract instant; \<open>time.Duration\<close> is an \<open>int64\<close> of nanoseconds,
  only ever compared and copied here.\<close>

type_synonym Time = int
type_synonym Duration = int

definition Second :: Duration where
  "Second = 1000000000"

definition Millisecond :: Duration where
  "Millisecond = 1000000"

text \<open>Go error values. \<open>==\<close> on errors is identity of the value: the sentinel values
  \<open>context.DeadlineExceeded\<close>, \<open>context.Canceled\<close>, \<open>io.ErrShortWrite\<close> and \<open>os.ErrClosed\<close>
  are constructors of their own, \<open>*exec.ExitError\<close> carries what its \<open>ExitCode()\<close>
  returns and its message, \<open>PathError\<close> is \<open>*fs.PathError\<close> (operation, path, cause),
  \<open>Errorf\<close> is a fresh value made by \<open>fmt.Errorf\<close> with its message, and
  \<open>OSError\<close> is any other error the system hands back.\<close>

datatype go_error =
    DeadlineExceeded
  | Canceled
  | ErrShortWrite
  | ErrClosed
  | ExitError int string
  | PathError string string go_error
  | OSError string
  | Errorf string

fun Error :: "go_error \<Rightarrow> string" where
  "Error DeadlineExceeded = ''context deadline exceeded''"
| "Error Canceled = ''context canceled''"
| "Error ErrShortWrite = ''short write''"
| "Error ErrClosed = ''file already closed''"
| "Error (ExitError c m) = m"
| "Error (PathError op path e) = op @ '' '' @ path @ '': '' @ Error e"
| "Error (OSError m) = m"
| "Error (Errorf m) = m"

datatype 'a outcome = Panic string | Returns 'a

text \<open>Decimal printing, as \<open>%d\<close> of \<open>fmt\<close> does.\<close>

fun show_nat :: "nat \<Rightarrow> string" where
  "show_nat n =
     (if n < 10 then [char_of (48 + n)]
      else show_nat (n div 10) @ [char_of (48 + n mod 10)])"

declare show_nat.simps [simp del]

definition show_int :: "int \<Rightarrow> string" where
  "show_int i = (if i < 0 then CHR ''-'' # show_nat (nat (- i)) else show_nat (nat i))"

text \<open>A buffered channel \<open>make(chan T, n)\<close>: the buffered values in order, and the
  capacity. \<open>make\<close> panics on a negative size. \<open>try_send\<close> is the send of a
  \<open>select\<close> with a \<open>default\<close> case, and also the enabledness of a blocking send: it
  succeeds when the buffer has room. \<open>recv\<close> takes the oldest value; it is not
  enabled on an empty buffer. (With capacity 0 a send could still meet a waiting
  receiver; a validated configuration gives every channel of this program a
  capacity of at least 1, where a waiting receiver means an empty buffer.)\<close>

record 'a chan =
  chan_buf :: "'a list"
  chan_cap :: nat

definition make_chan :: "int \<Rightarrow> 'a chan outcome" where
  "make_chan n =
     (if n < 0 then Panic ''makechan: size out of range''
      else Returns \<lparr>chan_buf = [], chan_cap = nat n\<rparr>)"

definition try_send :: "'a chan \<Rightarrow> 'a \<Rightarrow> 'a chan option" where
  "try_send c x =
     (if length (chan_buf c) < chan_cap c then Some (c\<lparr>chan_buf := chan_buf c @ [x]\<rparr>)
      else None)"

definition recv :: "'a chan \<Rightarrow> ('a \<times> 'a chan) option" where
  "recv c = (case chan_buf c of [] \<Rightarrow> None | x # xs \<Rightarrow> Some (x, c\<lparr>chan_buf := xs\<rparr>))"

subsection \<open>Output limiter (executor package)\<close>

text \<open>\<open>LimitedWriter{W, N}\<close>: \<open>lw_W\<close> is the content of the \<open>bytes.Buffer\<close> behind \<open>W\<close>,
  \<open>lw_N\<close> the bytes remaining. \<open>bytes.Buffer.Write\<close> appends all of \<open>p\<close> and returns
  \<open>(len(p), nil)\<close>. The result is the writer after the call and the pair \<open>(n, err)\<close>.\<close>

record LimitedWriter =
  lw_W :: "byte list"
  lw_N :: int

definition Write :: "LimitedWriter \<Rightarrow> byte list \<Rightarrow> LimitedWriter \<times> int \<times> go_error option" where
  "Write l p =
     (if lw_N l \<le> 0 then (l, 0, Some ErrShortWrite)
      else
        let p' = (if int (length p) > lw_N l then take (nat (lw_N l)) p else p);
            n = int (length p')
        in (l\<lparr>lw_W := lw_W l @ p', lw_N := lw_N l - n\<rparr>, n, None))"

text \<open>A sequence of \<open>Write\<close> calls on one writer, whatever the caller does with the
  results.\<close>

fun write_all :: "LimitedWriter \<Rightarrow> byte list list \<Rightarrow> LimitedWriter" where
  "write_all l [] = l"
| "write_all l (p # ps) = write_all (fst (Write l p)) ps"

text \<open>The sink \<open>Execute\<close> installs as \<open>cmd.Stdout\<close> or \<open>cmd.Stderr\<close> over a fresh
  \<open>bytes.Buffer\<close> (lines 96-103), and the buffer's content after the writes.\<close>

definition capture :: "int \<Rightarrow> byte list list \<Rightarrow> byte list" where
  "capture limit ps =
     (if limit > 0 then lw_W (write_all \<lparr>lw_W = [], lw_N = limit\<rparr> ps)
      else concat ps)"

subsection \<open>Process supervisor (executor package)\<close>

text \<open>\<open>exec.Cmd\<close> as far as the supervisor's control flow reads it: the command line and
  whether \<open>cmd.Process\<close> is set (it is once \<open>Start\<close> has succeeded). The working
  directory and environment set up in lines 76-93 configure the child only; what
  the child then does is an input of the model.\<close>

record Cmd =
  cmd_Path :: string
  cmd_Args :: "string list"
  cmd_Process :: bool

record ExecutionResult =
  res_ExitCode :: int
  res_Stdout :: "byte list"
  res_Stderr :: "byte list"
  res_StartTime :: Time
  res_EndTime :: Time
  res_ExecutionID :: string

record ExecConfig =
  ecfg_Path :: string
  ecfg_Args :: "string list"
  ecfg_WorkingDir :: string
  ecfg_Env :: "(string \<times> string) list"
  ecfg_Stdin :: "byte list option"
  ecfg_OutputLimit :: int
  ecfg_KillTimeout :: Duration

record Executor =
  workDir :: string
  processes :: "string \<rightharpoonup> Cmd"
  execCounter :: nat

text \<open>What one call of \<open>Execute\<close> observes of its surroundings.\<close>

datatype select_event = ProcDone "go_error option" | CtxDone
datatype grace_event = Exited "go_error option" | TimerFired

record ProcEnv =
  now_id :: int
  now_start :: Time
  now_end :: Time
  start_result :: "go_error option"
  stdout_writes :: "byte list list"
  stderr_writes :: "byte list list"
  wait_event :: select_event
  signal_result :: "go_error option"
  grace :: grace_event
  kill_result :: "go_error option"

definition zero_ExecutionResult :: ExecutionResult where
  "zero_ExecutionResult =
     \<lparr>res_ExitCode = 0, res_Stdout = [], res_Stderr = [], res_StartTime = 0,
      res_EndTime = 0, res_ExecutionID = []\<rparr>"

definition forceKill :: "Cmd \<Rightarrow> ProcEnv \<Rightarrow> go_error option" where
  "forceKill cmd env = (if \<not> cmd_Process cmd then None else kill_result env)"

definition handleTimeout :: "Cmd \<Rightarrow> Duration \<Rightarrow> ProcEnv \<Rightarrow> go_error option" where
  "handleTimeout cmd killTimeout env =
     (if \<not> cmd_Process cmd then None
      else case signal_result env of
        Some err \<Rightarrow> forceKill cmd env
      | None \<Rightarrow>
          (case grace env of
             Exited err \<Rightarrow> err
           | TimerFired \<Rightarrow> forceKill cmd env))"

definition new_execID :: "Executor \<Rightarrow> ProcEnv \<Rightarrow> string" where
  "new_execID e env = ''exec_'' @ show_int (now_id env) @ ''_'' @ show_nat (execCounter e)"

text \<open>The body of \<open>Execute\<close> between registering the command and the deferred removal
  (lines 117-161): the result record and the error returned.\<close>

definition Execute_run :: "string \<Rightarrow> Cmd \<Rightarrow> ExecConfig \<Rightarrow> ProcEnv \<Rightarrow> ExecutionResult \<times> go_error option" where
  "Execute_run execID cmd cfg env =
     (let result = zero_ExecutionResult\<lparr>res_ExecutionID := execID, res_StartTime := now_start env\<rparr>
      in case start_result env of
        Some err \<Rightarrow> (result, Some (Errorf (''failed to start process: '' @ Error err)))
      | None \<Rightarrow>
          (let cmd' = cmd\<lparr>cmd_Process := True\<rparr>;
               execErr = (case wait_event env of
                            ProcDone err \<Rightarrow> err
                          | CtxDone \<Rightarrow> handleTimeout cmd' (ecfg_KillTimeout cfg) env);
               result' = result\<lparr>res_EndTime := now_end env,
                                res_Stdout := capture (ecfg_OutputLimit cfg) (stdout_writes env),
                                res_Stderr := capture (ecfg_OutputLimit cfg) (stderr_writes env)\<rparr>
           in case execErr of
                Some err \<Rightarrow>
                  (result'\<lparr>res_ExitCode := (case err of ExitError c m \<Rightarrow> c | _ \<Rightarrow> - 1)\<rparr>,
                   Some (Errorf (''execution failed: '' @ Error err)))
              | None \<Rightarrow> (result'\<lparr>res_ExitCode := 0\<rparr>, None)))"

definition register :: "Executor \<Rightarrow> string \<Rightarrow> Cmd \<Rightarrow> Executor" where
  "register e execID cmd = e\<lparr>processes := (processes e)(execID \<mapsto> cmd)\<rparr>"

definition deregister :: "Executor \<Rightarrow> string \<Rightarrow> Executor" where
  "deregister e execID = e\<lparr>processes := (processes e)(execID := None)\<rparr>"

definition Execute :: "Executor \<Rightarrow> ExecConfig \<Rightarrow> ProcEnv \<Rightarrow> (ExecutionResult \<times> go_error option) \<times> Executor" where
  "Execute e cfg env =
     (let execID = new_execID e env;
          cmd = \<lparr>cmd_Path = ecfg_Path cfg, cmd_Args = ecfg_Args cfg, cmd_Process = False\<rparr>;
          e1 = register e execID cmd;
          r = Execute_run execID cmd cfg env
      in (r, deregister e1 execID))"

definition ListProcesses :: "Executor \<Rightarrow> string set" where
  "ListProcesses e = dom (processes e)"

definition KillProcess :: "Executor \<Rightarrow> string \<Rightarrow> ProcEnv \<Rightarrow> go_error option \<times> Executor" where
  "KillProcess e execID env =
     (case processes e execID of
        None \<Rightarrow> (Some (Errorf (''process '' @ execID @ '' not found'')), e)
      | Some cmd \<Rightarrow> (forceKill cmd env, e))"

definition Cleanup :: "Executor \<Rightarrow> Executor" where
  "Cleanup e = e\<lparr>processes := Map.empty\<rparr>"

definition NewExecutor :: "string \<Rightarrow> go_error option \<Rightarrow> go_error + Executor" where
  "NewExecutor wd mkdir_result =
     (case (if wd \<noteq> [] then mkdir_result else None) of
        Some err \<Rightarrow> Inl (Errorf (''failed to create working directory: '' @ Error err))
      | None \<Rightarrow> Inr \<lparr>workDir = wd, processes = Map.empty, execCounter = 0\<rparr>)"

subsection \<open>Job state and types (jobscheduler package)\<close>

text \<open>\<open>type JobStatus string\<close> with its six constants.\<close>

type_synonym JobStatus = string

definition JobStatusPending :: JobStatus where
  "JobStatusPending = ''pending''"

definition JobStatusRunning :: JobStatus where
  "JobStatusRunning = ''running''"

definition JobStatusComplete :: JobStatus where
  "JobStatusComplete = ''complete''"

definition JobStatusFailed :: JobStatus where
  "JobStatusFailed = ''failed''"

definition JobStatusTimedOut :: JobStatus where
  "JobStatusTimedOut = ''timed_out''"

definition JobStatusCancelled :: JobStatus where
  "JobStatusCancelled = ''cancelled''"

record ApplicationConfig =
  app_Name :: string
  app_Path :: string
  app_Args :: "string list"
  app_Env :: "(string \<times> string) list"
  app_WorkingDir :: string
  app_PassPayload :: bool

text \<open>\<open>Application\<close> is a pointer: \<open>None\<close> is \<open>nil\<close>.\<close>

record JobPayload =
  job_ID :: string
  job_Channel :: string
  job_Workers :: int
  job_Timeout :: Duration
  job_Body :: "byte list"
  job_Application :: "ApplicationConfig option"
  job_Status :: JobStatus
  job_Error :: string
  job_StartTime :: Time
  job_EndTime :: Time

definition Validate :: "JobPayload \<Rightarrow> go_error option" where
  "Validate j =
     (if job_ID j = [] then Some (Errorf ''job ID cannot be empty'')
      else if job_Channel j = [] then Some (Errorf ''channel cannot be empty'')
      else if job_Workers j < 0 then Some (Errorf ''workers cannot be negative'')
      else case job_Application j of
        Some app \<Rightarrow>
          (if app_Path app = [] then Some (Errorf ''application path cannot be empty'')
           else None)
      | None \<Rightarrow> None)"

text \<open>\<open>TotalJobs\<close> and \<open>FailedJobs\<close> are \<open>int64\<close> counters: \<open>++\<close> wraps.\<close>

record ChannelStats =
  stats_Workers :: int
  stats_ActiveJobs :: "string list"
  stats_TotalJobs :: "64 word"
  stats_FailedJobs :: "64 word"
  stats_LastJobTime :: Time

definition zero_ChannelStats :: ChannelStats where
  "zero_ChannelStats =
     \<lparr>stats_Workers = 0, stats_ActiveJobs = [], stats_TotalJobs = 0, stats_FailedJobs = 0,
      stats_LastJobTime = 0\<rparr>"

record Config =
  cfg_ProcessingLogPath :: string
  cfg_DefaultWorkers :: int
  cfg_DefaultTimeout :: Duration
  cfg_MaxQueueSize :: int
  cfg_WorkDir :: string
  cfg_MaxOutputSize :: int
  cfg_ShutdownTimeout :: Duration
  cfg_ChannelBufferSize :: int

definition DefaultConfig :: Config where
  "DefaultConfig =
     \<lparr>cfg_ProcessingLogPath = ''processing.log'',
      cfg_DefaultWorkers = 1,
      cfg_DefaultTimeout = 5 * 60 * Second,
      cfg_MaxQueueSize = 10000,
      cfg_WorkDir = ''/tmp/jobscheduler'',
      cfg_MaxOutputSize = 1024 * 1024,
      cfg_ShutdownTimeout = 30 * Second,
      cfg_ChannelBufferSize = 1000\<rparr>"

definition Config_Validate :: "Config \<Rightarrow> go_error option" where
  "Config_Validate c =
     (if cfg_ProcessingLogPath c = [] then Some (Errorf ''processing log path cannot be empty'')
      else if cfg_DefaultWorkers c < 1 then Some (Errorf ''default workers must be at least 1'')
      else if cfg_DefaultTimeout c < Second then
        Some (Errorf ''default timeout must be at least 1 second'')
      else if cfg_MaxQueueSize c < 1 then Some (Errorf ''max queue size must be at least 1'')
      else if cfg_WorkDir c = [] then Some (Errorf ''work directory cannot be empty'')
      else if cfg_ShutdownTimeout c < Second then
        Some (Errorf ''shutdown timeout must be at least 1 second'')
      else if cfg_ChannelBufferSize c < 1 then
        Some (Errorf ''channel buffer size must be at least 1'')
      else None)"

subsection \<open>The process log\<close>

text \<open>\<open>*os.File\<close> opened for appending: its path, the bytes in it, and whether \<open>Close\<close>
  has been called. A write to a closed file fails and writes nothing (the scheduler
  ignores the error of \<open>Fprintf\<close>). \<open>Close\<close> on a closed file returns the path error
  of \<open>os.ErrClosed\<close>; on an open file it returns what the system reports and the file
  is closed afterwards.\<close>

record File =
  file_name :: string
  file_data :: string
  file_closed :: bool

definition Fprintf :: "File \<Rightarrow> string \<Rightarrow> File" where
  "Fprintf f line = (if file_closed f then f else f\<lparr>file_data := file_data f @ line\<rparr>)"

definition File_Close :: "File \<Rightarrow> go_error option \<Rightarrow> go_error option \<times> File" where
  "File_Close f close_result =
     (if file_closed f then (Some (PathError ''close'' (file_name f) ErrClosed), f)
      else (close_result, f\<lparr>file_closed := True\<rparr>))"

subsection \<open>Channel processor (processor.go)\<close>

text \<open>A \<open>Processor\<close> refers to its channel, the scheduler's executor and the process
  log by pointer. The channel's name, workers and timeout never change after creation
  and are copied here; the executor and the log are passed to \<open>processJob\<close> and
  returned by it. \<open>workerPool\<close> is the buffered channel of capacity \<open>Workers\<close> used as
  a counting semaphore, \<open>activeJobs\<close> the \<open>sync.Map\<close>.\<close>

record Processor =
  p_Name :: string
  p_Workers :: int
  p_Timeout :: Duration
  p_MaxOutputSize :: int
  workerPool :: "unit chan"
  activeJobs :: "string \<rightharpoonup> JobPayload"

definition NewProcessor :: "string \<Rightarrow> int \<Rightarrow> Duration \<Rightarrow> int \<Rightarrow> Processor outcome" where
  "NewProcessor name workers timeout maxOutputSize =
     (case make_chan workers of
        Panic m \<Rightarrow> Panic m
      | Returns pool \<Rightarrow>
          Returns \<lparr>p_Name = name, p_Workers = workers, p_Timeout = timeout,
                   p_MaxOutputSize = maxOutputSize, workerPool = pool,
                   activeJobs = Map.empty\<rparr>)"

text \<open>Why a job context is done: its own deadline fired, or its parent (the
  scheduler's root context) was cancelled. \<open>ctx_Err\<close> is \<open>ctx.Err()\<close> then.\<close>

datatype ctx_done = DeadlineFired | ParentCancelled

fun ctx_Err :: "ctx_done \<Rightarrow> go_error" where
  "ctx_Err DeadlineFired = DeadlineExceeded"
| "ctx_Err ParentCancelled = Canceled"

text \<open>What one call of \<open>processJob\<close> observes: the clock readings, the log time
  stamps as formatted, the \<open>select\<close> of \<open>processRegularJob\<close> (the context is done, or
  the 100 ms have passed) and the supervisor's observations for an application job.\<close>

datatype regular_event = CtxDoneR ctx_done | Slept

record JobEnv =
  je_now_start :: Time
  je_stamp_started :: string
  je_regular :: regular_event
  je_now_regular :: Time
  je_proc :: ProcEnv
  je_now_end :: Time
  je_stamp_completed :: string

definition logJobEvent :: "Processor \<Rightarrow> File \<Rightarrow> string \<Rightarrow> JobPayload \<Rightarrow> string \<Rightarrow> File" where
  "logJobEvent p f stamp job event =
     Fprintf f (stamp @ '' - '' @ event @ '' - Channel: '' @ p_Name p @ '', JobID: '' @
                job_ID job @ [CHR 0x0A])"

text \<open>\<open>executeApplication\<close> reads \<open>job.Application\<close>, which its only caller has checked
  against \<open>nil\<close>: the descriptor is passed along. \<open>KillTimeout\<close> is not set and stays 0.\<close>

definition executeApplication ::
  "Processor \<Rightarrow> Executor \<Rightarrow> ProcEnv \<Rightarrow> JobPayload \<Rightarrow> ApplicationConfig \<Rightarrow>
   (ExecutionResult \<times> go_error option) \<times> Executor" where
  "executeApplication p ex env job app =
     (let cfg = \<lparr>ecfg_Path = app_Path app, ecfg_Args = app_Args app,
                 ecfg_WorkingDir = app_WorkingDir app, ecfg_Env = app_Env app,
                 ecfg_Stdin = (if app_PassPayload app then Some (job_Body job) else None),
                 ecfg_OutputLimit = p_MaxOutputSize p, ecfg_KillTimeout = 0\<rparr>
      in Execute ex cfg env)"

definition processRegularJob :: "JobEnv \<Rightarrow> JobPayload \<Rightarrow> ExecutionResult option \<times> go_error option" where
  "processRegularJob env job =
     (case je_regular env of
        CtxDoneR why \<Rightarrow> (None, Some (ctx_Err why))
      | Slept \<Rightarrow>
          (Some (zero_ExecutionResult\<lparr>res_ExitCode := 0, res_StartTime := job_StartTime job,
                                       res_EndTime := je_now_regular env\<rparr>), None))"

text \<open>Lines 89-101 of \<open>processJob\<close>: the terminal status from the error. The first
  argument is the \<open>%v\<close> formatting of a \<open>time.Duration\<close> (the standard library's).\<close>

definition set_terminal_status ::
  "(Duration \<Rightarrow> string) \<Rightarrow> Processor \<Rightarrow> Time \<Rightarrow> go_error option \<Rightarrow> JobPayload \<Rightarrow> JobPayload" where
  "set_terminal_status fmtv p now err job =
     (let job' = job\<lparr>job_EndTime := now\<rparr>
      in case err of
        Some e \<Rightarrow>
          (if e = DeadlineExceeded then
             job'\<lparr>job_Status := JobStatusTimedOut,
                  job_Error := ''job timed out after '' @ fmtv (p_Timeout p)\<rparr>
           else job'\<lparr>job_Status := JobStatusFailed, job_Error := Error e\<rparr>)
      | None \<Rightarrow> job'\<lparr>job_Status := JobStatusComplete\<rparr>)"

text \<open>\<open>processJob\<close>: the job is a by-value copy, so the status it assigns lives in the
  function's own variable; the value returned first is that variable when the
  function returns.\<close>

definition processJob ::
  "(Duration \<Rightarrow> string) \<Rightarrow> Processor \<Rightarrow> Executor \<Rightarrow> File \<Rightarrow> JobEnv \<Rightarrow> JobPayload \<Rightarrow>
   JobPayload \<times> Processor \<times> Executor \<times> File" where
  "processJob fmtv p ex f env job0 =
     (let p1 = p\<lparr>activeJobs := (activeJobs p)(job_ID job0 \<mapsto> job0)\<rparr>;
          job1 = job0\<lparr>job_Status := JobStatusRunning, job_StartTime := je_now_start env\<rparr>;
          f1 = logJobEvent p f (je_stamp_started env) job1 ''STARTED'';
          (err, ex1) =
            (case job_Application job1 of
               Some app \<Rightarrow>
                 (let (r, ex') = executeApplication p ex (je_proc env) job1 app
                  in (snd r, ex'))
             | None \<Rightarrow> (snd (processRegularJob env job1), ex));
          job2 = set_terminal_status fmtv p (je_now_end env) err job1;
          f2 = logJobEvent p f1 (je_stamp_completed env) job2
                 (''COMPLETED - Status: '' @ job_Status job2);
          p2 = p1\<lparr>activeJobs := (activeJobs p1)(job_ID job0 := None)\<rparr>
      in (job2, p2, ex1, f2))"

subsection \<open>Scheduler (scheduler.go)\<close>

record Channel =
  ch_Name :: string
  ch_Jobs :: "JobPayload chan"
  ch_Workers :: int
  ch_Timeout :: Duration
  ch_processor :: Processor

text \<open>\<open>ctx_cancelled\<close> is the state of the root context (\<open>s.ctx\<close>, cancelled by
  \<open>s.cancel\<close>); \<open>wg\<close> counts the processors added to the wait group.\<close>

record Scheduler =
  config :: Config
  executor :: Executor
  channels :: "string \<rightharpoonup> Channel"
  stats :: "string \<rightharpoonup> ChannelStats"
  processLog :: File
  ctx_cancelled :: bool
  wg :: nat

text \<open>What \<open>NewScheduler\<close> observes: the results of the two \<open>os.MkdirAll\<close> calls and of
  \<open>os.OpenFile\<close>, and the bytes already in the log file.\<close>

record InitEnv =
  ie_mkdir_result :: "go_error option"
  ie_open_result :: "go_error option"
  ie_log_data :: string
  ie_exec_mkdir_result :: "go_error option"

definition NewScheduler :: "Config \<Rightarrow> InitEnv \<Rightarrow> go_error + Scheduler" where
  "NewScheduler cfg env =
     (case Config_Validate cfg of
        Some err \<Rightarrow> Inl (Errorf (''invalid configuration: '' @ Error err))
      | None \<Rightarrow>
     (case ie_mkdir_result env of
        Some err \<Rightarrow> Inl (Errorf (''failed to create working directory: '' @ Error err))
      | None \<Rightarrow>
     (case ie_open_result env of
        Some err \<Rightarrow> Inl (Errorf (''failed to open process log: '' @ Error err))
      | None \<Rightarrow>
     (case NewExecutor (cfg_WorkDir cfg) (ie_exec_mkdir_result env) of
        Inl err \<Rightarrow> Inl (Errorf (''failed to create executor: '' @ Error err))
      | Inr exec \<Rightarrow>
          Inr \<lparr>config = cfg, executor = exec, channels = Map.empty, stats = Map.empty,
               processLog = \<lparr>file_name = cfg_ProcessingLogPath cfg,
                             file_data = ie_log_data env, file_closed = False\<rparr>,
               ctx_cancelled = False, wg = 0\<rparr>))))"

definition getOrCreateChannel :: "Scheduler \<Rightarrow> JobPayload \<Rightarrow> (Channel \<times> Scheduler) outcome" where
  "getOrCreateChannel s job =
     (case channels s (job_Channel job) of
        Some channel \<Rightarrow> Returns (channel, s)
      | None \<Rightarrow>
          (let workers = (if job_Workers job \<le> 0 then cfg_DefaultWorkers (config s)
                          else job_Workers job);
               timeout = (if job_Timeout job \<le> 0 then cfg_DefaultTimeout (config s)
                          else job_Timeout job)
           in case make_chan (cfg_ChannelBufferSize (config s)) of
                Panic m \<Rightarrow> Panic m
              | Returns jobs \<Rightarrow>
                  (case NewProcessor (job_Channel job) workers timeout
                          (cfg_MaxOutputSize (config s)) of
                     Panic m \<Rightarrow> Panic m
                   | Returns processor \<Rightarrow>
                       (let channel = \<lparr>ch_Name = job_Channel job, ch_Jobs = jobs,
                                        ch_Workers = workers, ch_Timeout = timeout,
                                        ch_processor = processor\<rparr>
                        in Returns (channel,
                             s\<lparr>channels := (channels s)(job_Channel job \<mapsto> channel),
                               stats := (stats s)(job_Channel job \<mapsto> zero_ChannelStats),
                               wg := wg s + 1\<rparr>)))))"

text \<open>\<open>s.stats[channelName]\<close> is a pointer: a missing entry is \<open>nil\<close> and the increment
  panics.\<close>

definition updateStatsForNewJob :: "Scheduler \<Rightarrow> string \<Rightarrow> Time \<Rightarrow> Scheduler outcome" where
  "updateStatsForNewJob s channelName now =
     (case stats s channelName of
        None \<Rightarrow> Panic ''nil pointer dereference''
      | Some st \<Rightarrow>
          Returns (s\<lparr>stats := (stats s)(channelName \<mapsto>
                      st\<lparr>stats_TotalJobs := stats_TotalJobs st + 1,
                         stats_LastJobTime := now\<rparr>)\<rparr>))"

text \<open>\<open>SubmitJob\<close>, with the two clock readings it makes (the job's \<open>StartTime\<close> and the
  statistics' \<open>LastJobTime\<close>). The send is the \<open>select\<close> with a \<open>default\<close> case.\<close>

definition SubmitJob ::
  "Scheduler \<Rightarrow> Time \<Rightarrow> Time \<Rightarrow> JobPayload \<Rightarrow> (go_error option \<times> Scheduler) outcome" where
  "SubmitJob s now1 now2 job =
     (case Validate job of
        Some err \<Rightarrow> Returns (Some (Errorf (''invalid job payload: '' @ Error err)), s)
      | None \<Rightarrow>
          (case getOrCreateChannel s job of
             Panic m \<Rightarrow> Panic m
           | Returns (channel, s1) \<Rightarrow>
               (let job' = job\<lparr>job_Status := JobStatusPending, job_StartTime := now1\<rparr>
                in case try_send (ch_Jobs channel) job' of
                     Some jobs' \<Rightarrow>
                       (case updateStatsForNewJob
                               (s1\<lparr>channels := (channels s1)(job_Channel job \<mapsto>
                                      channel\<lparr>ch_Jobs := jobs'\<rparr>)\<rparr>)
                               (job_Channel job) now2 of
                          Panic m \<Rightarrow> Panic m
                        | Returns s2 \<Rightarrow> Returns (None, s2))
                   | None \<Rightarrow>
                       Returns (Some (Errorf (''channel '' @ job_Channel job @ '' is full'')),
                                s1))))"

text \<open>\<open>Shutdown\<close>: cancel the root context, wait for the processors or the shutdown
  timeout (either way only a line is logged), clean the executor up, close the
  process log. The argument is what closing an open log file reports.\<close>

definition Shutdown :: "Scheduler \<Rightarrow> go_error option \<Rightarrow> go_error option \<times> Scheduler" where
  "Shutdown s close_result =
     (let s1 = s\<lparr>ctx_cancelled := True\<rparr>;
          s2 = s1\<lparr>executor := Cleanup (executor s1)\<rparr>;
          (err, f) = File_Close (processLog s2) close_result
      in case err of
           Some e \<Rightarrow> (Some (Errorf (''failed to close process log: '' @ Error e)),
                      s2\<lparr>processLog := f\<rparr>)
         | None \<Rightarrow> (None, s2\<lparr>processLog := f\<rparr>))"

text \<open>Names for what the two functions above compute: the channel that
  \<open>getOrCreateChannel\<close> builds for a new name (lines 365-390), the job as \<open>SubmitJob\<close>
  enqueues it (lines 346-347), and the readings of one channel's queue and
  statistics (nothing queued and zero counters for a name without a channel).\<close>

definition new_Channel :: "Scheduler \<Rightarrow> JobPayload \<Rightarrow> Channel" where
  "new_Channel s job =
     (let workers = (if job_Workers job \<le> 0 then cfg_DefaultWorkers (config s)
                     else job_Workers job);
          timeout = (if job_Timeout job \<le> 0 then cfg_DefaultTimeout (config s)
                     else job_Timeout job)
      in \<lparr>ch_Name = job_Channel job,
          ch_Jobs = \<lparr>chan_buf = [], chan_cap = nat (cfg_ChannelBufferSize (config s))\<rparr>,
          ch_Workers = workers, ch_Timeout = timeout,
          ch_processor =
            \<lparr>p_Name = job_Channel job, p_Workers = workers, p_Timeout = timeout,
             p_MaxOutputSize = cfg_MaxOutputSize (config s),
             workerPool = \<lparr>chan_buf = [], chan_cap = nat workers\<rparr>,
             activeJobs = Map.empty\<rparr>\<rparr>)"

definition queued :: "Time \<Rightarrow> JobPayload \<Rightarrow> JobPayload" where
  "queued now1 job = job\<lparr>job_Status := JobStatusPending, job_StartTime := now1\<rparr>"

definition queue_of :: "Scheduler \<Rightarrow> string \<Rightarrow> JobPayload list" where
  "queue_of s name = (case channels s name of None \<Rightarrow> [] | Some c \<Rightarrow> chan_buf (ch_Jobs c))"

definition TotalJobs_of :: "Scheduler \<Rightarrow> string \<Rightarrow> 64 word" where
  "TotalJobs_of s name = (case stats s name of None \<Rightarrow> 0 | Some st \<Rightarrow> stats_TotalJobs st)"

definition LastJobTime_of :: "Scheduler \<Rightarrow> string \<Rightarrow> Time" where
  "LastJobTime_of s name = (case stats s name of None \<Rightarrow> 0 | Some st \<Rightarrow> stats_LastJobTime st)"

text \<open>A run of submissions, one after the other, each with its two clock readings.\<close>

fun SubmitJobs :: "Scheduler \<Rightarrow> (Time \<times> Time \<times> JobPayload) list \<Rightarrow> Scheduler outcome" where
  "SubmitJobs s [] = Returns s"
| "SubmitJobs s ((now1, now2, job) # rest) =
     (case SubmitJob s now1 now2 job of
        Panic m \<Rightarrow> Panic m
      | Returns (err, s') \<Rightarrow> SubmitJobs s' rest)"

text \<open>What holds of every scheduler that \<open>NewScheduler\<close> has returned, after any
  submissions and any work of its processors: the configuration has passed
  \<open>Validate\<close>, a name has a statistics record exactly when it has a channel, and every
  job queue has the capacity \<open>ChannelBufferSize\<close>.\<close>

definition wf_Scheduler :: "Scheduler \<Rightarrow> bool" where
  "wf_Scheduler s \<longleftrightarrow>
     Config_Validate (config s) = None \<and>
     dom (stats s) = dom (channels s) \<and>
     (\<forall>name c. channels s name = Some c \<longrightarrow>
        chan_cap (ch_Jobs c) = nat (cfg_ChannelBufferSize (config s)))"

text \<open>The processor of channel \<open>name\<close> running \<open>processJob\<close> inside scheduler \<open>s\<close>:
  its executor and process log are the scheduler's.\<close>

definition processJob_in ::
  "(Duration \<Rightarrow> string) \<Rightarrow> Scheduler \<Rightarrow> string \<Rightarrow> JobEnv \<Rightarrow> JobPayload \<Rightarrow>
   (JobPayload \<times> Scheduler) option" where
  "processJob_in fmtv s name env job =
     (case channels s name of
        None \<Rightarrow> None
      | Some ch \<Rightarrow>
          (let (job', p', ex', f') =
                 processJob fmtv (ch_processor ch) (executor s) (processLog s) env job
           in Some (job', s\<lparr>executor := ex', processLog := f',
                             channels := (channels s)(name \<mapsto> ch\<lparr>ch_processor := p'\<rparr>)\<rparr>)))"

text \<open>The processor of channel \<open>name\<close> receiving the next job of its queue and running
  \<open>processJob\<close> on it (\<open>Start\<close>, lines 48-56, for one job).\<close>

definition dispatch_next ::
  "(Duration \<Rightarrow> string) \<Rightarrow> Scheduler \<Rightarrow> string \<Rightarrow> JobEnv \<Rightarrow> (JobPayload \<times> Scheduler) option" where
  "dispatch_next fmtv s name env =
     (case channels s name of
        None \<Rightarrow> None
      | Some ch \<Rightarrow>
          (case recv (ch_Jobs ch) of
             None \<Rightarrow> None
           | Some (job, q) \<Rightarrow>
               processJob_in fmtv (s\<lparr>channels := (channels s)(name \<mapsto> ch\<lparr>ch_Jobs := q\<rparr>)\<rparr>)
                 name env job))"

subsection \<open>The goroutines of one channel (Processor.Start)\<close>

text \<open>\<open>Start\<close> is a loop around a \<open>select\<close>; each dequeued job gets a goroutine that
  runs \<open>processJob\<close> and, deferred, takes its token back out of \<open>workerPool\<close>. The
  goroutines interleave, so the loop is a step relation on the channel together with
  the position of the dispatcher loop and of every job goroutine:
  \<^item> \<open>Selecting\<close>: the dispatcher is at the \<open>select\<close> (line 44);
    \<open>Acquiring job\<close>: it has received \<open>job\<close> and blocks on \<open>p.workerPool <- struct{}{}\<close>
    (line 50); \<open>Spawning job\<close>: it has put its token into the pool and is about to
    start the goroutine (line 53); \<open>Stopped\<close>: it has returned (line 47);
  \<^item> a job goroutine is \<open>Spawned\<close> (started by \<open>go\<close>, line 53), \<open>InProcessJob\<close> (between
    lines 64 and 104, its job \<open>running\<close>) or \<open>Releasing\<close> (\<open>processJob\<close> has returned,
    the deferred receive of line 54 is next); after the receive it is gone.\<close>

datatype dispatcher = Selecting | Acquiring JobPayload | Spawning JobPayload | Stopped

datatype task_pc = Spawned | InProcessJob | Releasing

record Lane =
  lane_ch :: Channel
  lane_disp :: dispatcher
  lane_tasks :: "(JobPayload \<times> task_pc) list"
  lane_ctx_done :: bool

definition init_Lane :: "Channel \<Rightarrow> Lane" where
  "init_Lane c = \<lparr>lane_ch = c, lane_disp = Selecting, lane_tasks = [], lane_ctx_done = False\<rparr>"

definition set_Jobs :: "Lane \<Rightarrow> JobPayload chan \<Rightarrow> Lane" where
  "set_Jobs L q = L\<lparr>lane_ch := (lane_ch L)\<lparr>ch_Jobs := q\<rparr>\<rparr>"

definition set_workerPool :: "Lane \<Rightarrow> unit chan \<Rightarrow> Lane" where
  "set_workerPool L pool =
     L\<lparr>lane_ch := (lane_ch L)\<lparr>ch_processor := (ch_processor (lane_ch L))\<lparr>workerPool := pool\<rparr>\<rparr>\<rparr>"

definition set_activeJobs :: "Lane \<Rightarrow> (string \<rightharpoonup> JobPayload) \<Rightarrow> Lane" where
  "set_activeJobs L m =
     L\<lparr>lane_ch := (lane_ch L)\<lparr>ch_processor := (ch_processor (lane_ch L))\<lparr>activeJobs := m\<rparr>\<rparr>\<rparr>"

definition pool_of :: "Lane \<Rightarrow> unit chan" where
  "pool_of L = workerPool (ch_processor (lane_ch L))"

definition active_of :: "Lane \<Rightarrow> (string \<rightharpoonup> JobPayload)" where
  "active_of L = activeJobs (ch_processor (lane_ch L))"

text \<open>The number of jobs of the channel inside \<open>processJob\<close>, and the token the
  dispatcher has acquired for a goroutine it has not started yet.\<close>

definition running :: "Lane \<Rightarrow> nat" where
  "running L = length (filter (\<lambda>t. snd t = InProcessJob) (lane_tasks L))"

definition spawning :: "Lane \<Rightarrow> nat" where
  "spawning L = (case lane_disp L of Spawning job \<Rightarrow> 1 | _ \<Rightarrow> 0)"

inductive Start_step :: "(Duration \<Rightarrow> string) \<Rightarrow> Lane \<Rightarrow> Lane \<Rightarrow> bool" for fmtv where
  submit: \<comment> \<open>the enqueue of \<open>SubmitJob\<close>\<close>
    "try_send (ch_Jobs (lane_ch L)) (queued now job) = Some q \<Longrightarrow>
     Start_step fmtv L (set_Jobs L q)"
| cancel: \<comment> \<open>the root context is cancelled\<close>
    "Start_step fmtv L (L\<lparr>lane_ctx_done := True\<rparr>)"
| stop: \<comment> \<open>\<open>case <-ctx.Done()\<close>\<close>
    "lane_disp L = Selecting \<Longrightarrow> lane_ctx_done L \<Longrightarrow>
     Start_step fmtv L (L\<lparr>lane_disp := Stopped\<rparr>)"
| dequeue: \<comment> \<open>\<open>case job := <-p.config.Channel.Jobs\<close>\<close>
    "lane_disp L = Selecting \<Longrightarrow> recv (ch_Jobs (lane_ch L)) = Some (job, q) \<Longrightarrow>
     Start_step fmtv L ((set_Jobs L q)\<lparr>lane_disp := Acquiring job\<rparr>)"
| acquire: \<comment> \<open>\<open>p.workerPool <- struct{}{}\<close>\<close>
    "lane_disp L = Acquiring job \<Longrightarrow> try_send (pool_of L) () = Some pool \<Longrightarrow>
     Start_step fmtv L ((set_workerPool L pool)\<lparr>lane_disp := Spawning job\<rparr>)"
| spawn: \<comment> \<open>\<open>go func(job JobPayload) {...}(job)\<close>\<close>
    "lane_disp L = Spawning job \<Longrightarrow>
     Start_step fmtv L
       (L\<lparr>lane_disp := Selecting, lane_tasks := lane_tasks L @ [(job, Spawned)]\<rparr>)"
| enter: \<comment> \<open>\<open>processJob\<close>, lines 64-73\<close>
    "i < length (lane_tasks L) \<Longrightarrow> lane_tasks L ! i = (job, Spawned) \<Longrightarrow>
     Start_step fmtv L
       ((set_activeJobs L ((active_of L)(job_ID job \<mapsto> job)))
          \<lparr>lane_tasks := (lane_tasks L)
             [i := (job\<lparr>job_Status := JobStatusRunning, job_StartTime := now\<rparr>, InProcessJob)]\<rparr>)"
| leave: \<comment> \<open>\<open>processJob\<close>, lines 89-105 and the deferred \<open>activeJobs.Delete\<close>\<close>
    "i < length (lane_tasks L) \<Longrightarrow> lane_tasks L ! i = (job, InProcessJob) \<Longrightarrow>
     Start_step fmtv L
       ((set_activeJobs L ((active_of L)(job_ID job := None)))
          \<lparr>lane_tasks := (lane_tasks L)
             [i := (set_terminal_status fmtv (ch_processor (lane_ch L)) now err job,
                    Releasing)]\<rparr>)"
| release: \<comment> \<open>the deferred \<open><-p.workerPool\<close>\<close>
    "i < length (lane_tasks L) \<Longrightarrow> lane_tasks L ! i = (job, Releasing) \<Longrightarrow>
     recv (pool_of L) = Some ((), pool) \<Longrightarrow>
     Start_step fmtv L
       ((set_workerPool L pool)
          \<lparr>lane_tasks := take i (lane_tasks L) @ drop (Suc i) (lane_tasks L)\<rparr>)"

inductive Start_reachable :: "(Duration \<Rightarrow> string) \<Rightarrow> Channel \<Rightarrow> Lane \<Rightarrow> bool" for fmtv c where
  init: "Start_reachable fmtv c (init_Lane c)"
| step: "Start_reachable fmtv c L \<Longrightarrow> Start_step fmtv L L' \<Longrightarrow> Start_reachable fmtv c L'"

text \<open>What every reachable state of a channel's goroutines satisfies: the tokens in
  \<open>workerPool\<close> are as many as the job goroutines alive, plus the one of a goroutine
  about to be started, and no more than its capacity; queued jobs and the job the
  dispatcher holds are \<open>pending\<close>; and a job goroutine is inside \<open>processJob\<close> exactly
  when its job's \<open>Status\<close> is \<open>running\<close>.\<close>

definition Lane_inv :: "Lane \<Rightarrow> bool" where
  "Lane_inv L \<longleftrightarrow>
     length (chan_buf (pool_of L)) = length (lane_tasks L) + spawning L \<and>
     length (chan_buf (pool_of L)) \<le> chan_cap (pool_of L) \<and>
     (\<forall>j \<in> set (chan_buf (ch_Jobs (lane_ch L))). job_Status j = JobStatusPending) \<and>
     (\<forall>j. lane_disp L = Acquiring j \<or> lane_disp L = Spawning j \<longrightarrow>
          job_Status j = JobStatusPending) \<and>
     (\<forall>t \<in> set (lane_tasks L). (snd t = InProcessJob) = (job_Status (fst t) = JobStatusRunning))"

subsection \<open>The process registry under concurrent calls\<close>

text \<open>Calls of \<open>Execute\<close> overlap with each other and with \<open>KillProcess\<close> and \<open>Cleanup\<close>.
  The registry is only touched under the mutex, so each locked section is one step.
  \<open>sys_inflight\<close> lists the execution IDs of the \<open>Execute\<close> calls that have registered and
  not yet returned.\<close>

record ExecSys =
  sys_executor :: Executor
  sys_inflight :: "string list"

inductive Executor_step :: "ExecSys \<Rightarrow> ExecSys \<Rightarrow> bool" where
  exec_enter: \<comment> \<open>\<open>Execute\<close>, lines 106-108\<close>
    "execID = new_execID (sys_executor S) env \<Longrightarrow>
     Executor_step S \<lparr>sys_executor = register (sys_executor S) execID cmd,
                      sys_inflight = execID # sys_inflight S\<rparr>"
| exec_return: \<comment> \<open>\<open>Execute\<close>, the deferred removal of lines 111-115\<close>
    "execID \<in> set (sys_inflight S) \<Longrightarrow>
     Executor_step S \<lparr>sys_executor = deregister (sys_executor S) execID,
                      sys_inflight = remove1 execID (sys_inflight S)\<rparr>"
| kill:
    "Executor_step S (S\<lparr>sys_executor := snd (KillProcess (sys_executor S) execID env)\<rparr>)"
| cleanup:
    "Executor_step S (S\<lparr>sys_executor := Cleanup (sys_executor S)\<rparr>)"

inductive Executor_reachable :: "ExecSys \<Rightarrow> bool" where
  exec_init: "NewExecutor wd r = Inr e \<Longrightarrow>
              Executor_reachable \<lparr>sys_executor = e, sys_inflight = []\<rparr>"
| exec_step: "Executor_reachable S \<Longrightarrow> Executor_step S S' \<Longrightarrow> Executor_reachable S'"

subsection \<open>Concrete runs\<close>

text \<open>A fresh executor, the supervisor configuration of \<open>echo hi\<close> with a given output
  limit, and a child that starts, makes the given writes to its standard output and
  exits with status 0.\<close>

definition fresh_executor :: Executor where
  "fresh_executor = \<lparr>workDir = ''/tmp/jobscheduler'', processes = Map.empty, execCounter = 0\<rparr>"

definition echo_cfg :: "int \<Rightarrow> ExecConfig" where
  "echo_cfg limit =
     \<lparr>ecfg_Path = ''echo'', ecfg_Args = [''hi''], ecfg_WorkingDir = [], ecfg_Env = [],
      ecfg_Stdin = None, ecfg_OutputLimit = limit, ecfg_KillTimeout = 0\<rparr>"

definition exits_ok :: "byte list list \<Rightarrow> ProcEnv" where
  "exits_ok ws =
     \<lparr>now_id = 1000, now_start = 1, now_end = 2, start_result = None, stdout_writes = ws,
      stderr_writes = [], wait_event = ProcDone None, signal_result = None,
      grace = TimerFired, kill_result = None\<rparr>"

text \<open>The supervisor's observations when the job context is done while the child still
  runs: the interrupt is delivered, the kill timer (0, \<open>KillTimeout\<close> is never set)
  fires, and the kill succeeds (\<open>killed_on_timeout\<close>), or the kill reports that the
  process has already finished (\<open>kill_fails\<close>), or the child exits on the interrupt
  before the timer (\<open>interrupted\<close>). \<open>exits_1\<close>: the child exits with status 1.
  \<open>spawn_fails\<close>: \<open>cmd.Start()\<close> fails.\<close>

definition killed_on_timeout :: ProcEnv where
  "killed_on_timeout =
     \<lparr>now_id = 1000, now_start = 1, now_end = 2, start_result = None, stdout_writes = [],
      stderr_writes = [], wait_event = CtxDone, signal_result = None,
      grace = TimerFired, kill_result = None\<rparr>"

definition kill_fails :: ProcEnv where
  "kill_fails = killed_on_timeout\<lparr>kill_result := Some (OSError ''os: process already finished'')\<rparr>"

definition interrupted :: ProcEnv where
  "interrupted = killed_on_timeout\<lparr>grace := Exited (Some (ExitError (- 1) ''signal: interrupt''))\<rparr>"

definition exits_1 :: ProcEnv where
  "exits_1 = (exits_ok [])\<lparr>wait_event := ProcDone (Some (ExitError 1 ''exit status 1''))\<rparr>"

definition spawn_fails :: ProcEnv where
  "spawn_fails =
     (exits_ok [])\<lparr>start_result :=
        Some (OSError ''fork/exec /no/such/binary: no such file or directory'')\<rparr>"

text \<open>The command \<open>echo hi\<close> and the registry while one execution of it is in flight.\<close>

definition echo_cmd :: Cmd where
  "echo_cmd = \<lparr>cmd_Path = ''echo'', cmd_Args = [''hi''], cmd_Process = False\<rparr>"

definition one_inflight :: ExecSys where
  "one_inflight =
     \<lparr>sys_executor = register fresh_executor ''exec_1000_0'' echo_cmd,
      sys_inflight = [''exec_1000_0'']\<rparr>"

text \<open>A scheduler as \<open>NewScheduler(DefaultConfig())\<close> returns it, a payload-only job
  and an application job (\<open>sleep 1\<close>), both with a timeout hint of 100 ms, and what a
  call of \<open>processJob\<close> observes. \<open>fmt_ms\<close> prints a duration of a whole number of
  milliseconds below one second as \<open>Duration.String\<close> does.\<close>

definition init_ok :: InitEnv where
  "init_ok = \<lparr>ie_mkdir_result = None, ie_open_result = None, ie_log_data = [],
              ie_exec_mkdir_result = None\<rparr>"

definition started :: Scheduler where
  "started =
     \<lparr>config = DefaultConfig, executor = fresh_executor, channels = Map.empty,
      stats = Map.empty,
      processLog = \<lparr>file_name = ''processing.log'', file_data = [], file_closed = False\<rparr>,
      ctx_cancelled = False, wg = 0\<rparr>"

definition fmt_ms :: "Duration \<Rightarrow> string" where
  "fmt_ms d = show_int (d div Millisecond) @ ''ms''"

definition job_j1 :: JobPayload where
  "job_j1 =
     \<lparr>job_ID = ''j1'', job_Channel = ''a'', job_Workers = 0, job_Timeout = 100 * Millisecond,
      job_Body = [], job_Application = None,
      job_Status = [], job_Error = [], job_StartTime = 0, job_EndTime = 0\<rparr>"

definition job_j3 :: JobPayload where
  "job_j3 =
     \<lparr>job_ID = ''j3'', job_Channel = ''c'', job_Workers = 0, job_Timeout = 100 * Millisecond,
      job_Body = [],
      job_Application = Some \<lparr>app_Name = ''sleep'', app_Path = ''sleep'', app_Args = [''1''],
                               app_Env = [], app_WorkingDir = [], app_PassPayload = False\<rparr>,
      job_Status = [], job_Error = [], job_StartTime = 0, job_EndTime = 0\<rparr>"

definition job_env :: "regular_event \<Rightarrow> ProcEnv \<Rightarrow> JobEnv" where
  "job_env r pe =
     \<lparr>je_now_start = 10, je_stamp_started = ''2024-01-01 00:00:00.010'', je_regular = r,
      je_now_regular = 11, je_proc = pe, je_now_end = 12,
      je_stamp_completed = ''2024-01-01 00:00:00.110''\<rparr>"

text \<open>Submit a job to the fresh scheduler, let its channel's processor run it, and
  read off: the error of \<open>SubmitJob\<close>, the \<open>Status\<close> and \<open>Error\<close> that \<open>processJob\<close>
  leaves in the job, and the channel's \<open>FailedJobs\<close> afterwards.\<close>

definition submit_then_run ::
  "JobPayload \<Rightarrow> JobEnv \<Rightarrow> (go_error option \<times> JobStatus \<times> string \<times> 64 word option) option" where
  "submit_then_run job env =
     (case SubmitJob started 5 6 job of
        Panic m \<Rightarrow> None
      | Returns (err, s1) \<Rightarrow>
          (case dispatch_next fmt_ms s1 (job_Channel job) env of
             None \<Rightarrow> None
           | Some (job', s2) \<Rightarrow>
               Some (err, job_Status job', job_Error job',
                     map_option stats_FailedJobs (stats s2 (job_Channel job)))))"

text \<open>A scheduler whose queues hold one job, and the same after \<open>j1\<close> was submitted.\<close>

definition small :: Scheduler where
  "small = started\<lparr>config := DefaultConfig\<lparr>cfg_ChannelBufferSize := 1\<rparr>\<rparr>"

definition one_queued :: Scheduler where
  "one_queued = (case SubmitJob small 5 6 job_j1 of Returns (err, s) \<Rightarrow> s | Panic m \<Rightarrow> small)"

text \<open>The channel of \<open>j1\<close> in the fresh scheduler with \<open>j1\<close> dequeued, its token
  acquired and its goroutine inside \<open>processJob\<close>.\<close>

definition lane_j1_running :: Lane where
  "lane_j1_running =
     \<lparr>lane_ch = (new_Channel started job_j1)
        \<lparr>ch_processor := (ch_processor (new_Channel started job_j1))
           \<lparr>workerPool := \<lparr>chan_buf = [()], chan_cap = 1\<rparr>,
            activeJobs := [''j1'' \<mapsto> queued 5 job_j1]\<rparr>\<rparr>,
      lane_disp = Selecting,
      lane_tasks = [((queued 5 job_j1)\<lparr>job_Status := JobStatusRunning, job_StartTime := 10\<rparr>,
                     InProcessJob)],
      lane_ctx_done = False\<rparr>"

section \<open>Properties\<close>

lemma Write_exhausted: "lw_N l \<le> 0 \<Longrightarrow> Write l p = (l, 0, Some ErrShortWrite)"
  by (simp add: Write_def)

subsection \<open>Output limiter\<close>

lemma Write_fst:
  "0 \<le> lw_N l \<Longrightarrow>
   fst (Write l p) = l\<lparr>lw_W := lw_W l @ take (nat (lw_N l)) p,
                        lw_N := lw_N l - min (lw_N l) (int (length p))\<rparr>"
  by (cases "lw_N l = 0") (auto simp: Write_def Let_def min_def)

text \<open>What a writer holds after any sequence of writes: the first \<open>N\<close> bytes of all
  that was written, and the budget that is left.\<close>

lemma write_all_content:
  "0 \<le> lw_N l \<Longrightarrow>
   lw_W (write_all l ps) = lw_W l @ take (nat (lw_N l)) (concat ps) \<and>
   lw_N (write_all l ps) = max 0 (lw_N l - int (length (concat ps)))"
proof (induction ps arbitrary: l)
  case Nil
  then show ?case by simp
next
  case (Cons p ps)
  let ?l' = "fst (Write l p)"
  have l': "?l' = l\<lparr>lw_W := lw_W l @ take (nat (lw_N l)) p,
                     lw_N := lw_N l - min (lw_N l) (int (length p))\<rparr>"
    using Cons.prems by (rule Write_fst)
  have nonneg: "0 \<le> lw_N ?l'" using Cons.prems by (simp add: l' min_def)
  have N': "nat (lw_N ?l') = nat (lw_N l) - length p"
    using Cons.prems by (simp add: l' min_def) arith
  show ?case
    using Cons.IH [OF nonneg] Cons.prems
    by (simp add: N') (auto simp: l' min_def max_def)
qed

lemma capture_length: "0 < n \<Longrightarrow> length (capture n ps) \<le> nat n"
  using write_all_content [of "\<lparr>lw_W = [], lw_N = n\<rparr>" ps]
  by (simp add: capture_def)

lemma Execute_run_output_bounded:
  "0 < ecfg_OutputLimit cfg \<Longrightarrow>
   length (res_Stdout (fst (Execute_run i c cfg env))) \<le> nat (ecfg_OutputLimit cfg) \<and>
   length (res_Stderr (fst (Execute_run i c cfg env))) \<le> nat (ecfg_OutputLimit cfg)"
  by (simp add: Execute_run_def Let_def zero_ExecutionResult_def capture_length
           split: option.splits)

text \<open>
  C6. For every initial budget \<open>n > 0\<close> and every sequence \<open>ps\<close> of writes, a
  \<open>LimitedWriter\<close> over an empty buffer holds exactly the first \<open>n\<close> bytes written, so it
  forwards at most \<open>n\<close> bytes in total; its budget never goes below zero; once the
  budget is zero a further write \<open>p\<close> leaves the writer as it is and returns
  \<open>(0, io.ErrShortWrite)\<close>. Consequently the \<open>Stdout\<close> and \<open>Stderr\<close> of the result of
  \<open>Execute\<close> with \<open>OutputLimit = n\<close>, and of \<open>executeApplication\<close> in a processor with
  \<open>MaxOutputSize = n\<close>, are at most \<open>n\<close> bytes long, on every return path.
\<close>

theorem LimitedWriter_bounds_output:
  assumes "0 < n"
  shows "lw_W (write_all \<lparr>lw_W = [], lw_N = n\<rparr> ps) = take (nat n) (concat ps) \<and>
         length (lw_W (write_all \<lparr>lw_W = [], lw_N = n\<rparr> ps)) \<le> nat n \<and>
         0 \<le> lw_N (write_all \<lparr>lw_W = [], lw_N = n\<rparr> ps) \<and>
         (lw_N (write_all \<lparr>lw_W = [], lw_N = n\<rparr> ps) = 0 \<longrightarrow>
            Write (write_all \<lparr>lw_W = [], lw_N = n\<rparr> ps) p =
              (write_all \<lparr>lw_W = [], lw_N = n\<rparr> ps, 0, Some ErrShortWrite)) \<and>
         (ecfg_OutputLimit cfg = n \<longrightarrow>
            length (res_Stdout (fst (fst (Execute e cfg env)))) \<le> nat n \<and>
            length (res_Stderr (fst (fst (Execute e cfg env)))) \<le> nat n) \<and>
         (p_MaxOutputSize pr = n \<longrightarrow>
            length (res_Stdout (fst (fst (executeApplication pr e env job app)))) \<le> nat n \<and>
            length (res_Stderr (fst (fst (executeApplication pr e env job app)))) \<le> nat n)"
proof -
  let ?l = "write_all \<lparr>lw_W = [], lw_N = n\<rparr> ps"
  have c: "lw_W ?l = take (nat n) (concat ps)" "lw_N ?l = max 0 (n - int (length (concat ps)))"
    using assms write_all_content [of "\<lparr>lw_W = [], lw_N = n\<rparr>" ps] by simp_all
  have len: "length (lw_W ?l) \<le> nat n" by (simp add: c)
  have short: "lw_N ?l = 0 \<longrightarrow> Write ?l p = (?l, 0, Some ErrShortWrite)"
    by (simp add: Write_exhausted)
  have ex: "ecfg_OutputLimit cfg = n \<longrightarrow>
            length (res_Stdout (fst (fst (Execute e cfg env)))) \<le> nat n \<and>
            length (res_Stderr (fst (fst (Execute e cfg env)))) \<le> nat n" for cfg
  proof (intro impI)
    assume lim: "ecfg_OutputLimit cfg = n"
    with assms have "0 < ecfg_OutputLimit cfg" by simp
    from Execute_run_output_bounded [OF this] lim
    show "length (res_Stdout (fst (fst (Execute e cfg env)))) \<le> nat n \<and>
          length (res_Stderr (fst (fst (Execute e cfg env)))) \<le> nat n"
      by (simp add: Execute_def Let_def)
  qed
  have app: "p_MaxOutputSize pr = n \<longrightarrow>
            length (res_Stdout (fst (fst (executeApplication pr e env job app)))) \<le> nat n \<and>
            length (res_Stderr (fst (fst (executeApplication pr e env job app)))) \<le> nat n"
    unfolding executeApplication_def Let_def
    by (rule impI, rule ex [rule_format]) simp
  from c len short ex app show ?thesis by simp
qed

text \<open>With a budget of 3 and the writes \<open>[1,2]\<close>, \<open>[3,4]\<close>, \<open>[5]\<close>: the buffer holds
  \<open>[1,2,3]\<close>, the budget is 0, a further write reports a short write, and \<open>Execute\<close> of a
  child making these writes returns a \<open>Stdout\<close> of 3 bytes.\<close>

theorem LimitedWriter_bounds_output_witness:
  "(0::int) < 3 \<and>
   lw_W (write_all \<lparr>lw_W = [], lw_N = 3\<rparr> [[1, 2], [3, 4], [5]]) = [1, 2, 3] \<and>
   lw_N (write_all \<lparr>lw_W = [], lw_N = 3\<rparr> [[1, 2], [3, 4], [5]]) = 0 \<and>
   snd (Write (write_all \<lparr>lw_W = [], lw_N = 3\<rparr> [[1, 2], [3, 4], [5]]) [6]) =
     (0, Some ErrShortWrite) \<and>
   ecfg_OutputLimit (echo_cfg 3) = 3 \<and>
   length (res_Stdout (fst (fst
     (Execute fresh_executor (echo_cfg 3) (exits_ok [[1, 2], [3, 4], [5]]))))) \<le> 3"
  using LimitedWriter_bounds_output
    [of 3 "[[1, 2], [3, 4], [5]]" "[6]" "echo_cfg 3" fresh_executor
        "exits_ok [[1, 2], [3, 4], [5]]"]
  by (simp add: Write_def echo_cfg_def)

subsection \<open>Evaluating concrete runs\<close>

lemma show_nat_0: "show_nat 0 = ''0''"
  by code_simp

lemma show_nat_100: "show_nat 100 = ''100''"
  by code_simp

lemma show_nat_1000: "show_nat 1000 = ''1000''"
  by code_simp

lemmas run_defs =
  submit_then_run_def dispatch_next_def processJob_in_def processJob_def SubmitJob_def
  getOrCreateChannel_def updateStatsForNewJob_def NewProcessor_def make_chan_def try_send_def
  recv_def Validate_def started_def DefaultConfig_def fresh_executor_def job_env_def
  killed_on_timeout_def kill_fails_def interrupted_def exits_1_def exits_ok_def
  set_terminal_status_def executeApplication_def Execute_def
  Execute_run_def handleTimeout_def forceKill_def processRegularJob_def logJobEvent_def
  Fprintf_def register_def deregister_def zero_ExecutionResult_def zero_ChannelStats_def
  capture_def fmt_ms_def show_int_def show_nat_100 Millisecond_def Second_def Let_def
  JobStatusPending_def JobStatusRunning_def JobStatusComplete_def JobStatusFailed_def
  JobStatusTimedOut_def JobStatusCancelled_def

lemma NewScheduler_started: "NewScheduler DefaultConfig init_ok = Inr started"
  by (simp add: NewScheduler_def Config_Validate_def DefaultConfig_def init_ok_def
        NewExecutor_def started_def fresh_executor_def Second_def)

lemma new_execID_fresh: "new_execID fresh_executor (exits_ok ws) = ''exec_1000_0''"
  by (simp add: new_execID_def fresh_executor_def exits_ok_def show_int_def
        show_nat_1000 show_nat_0)

subsection \<open>Terminal status of a job\<close>

lemma JobStatus_distinct:
  "JobStatusComplete \<noteq> JobStatusTimedOut" "JobStatusFailed \<noteq> JobStatusTimedOut"
  "JobStatusComplete \<noteq> JobStatusCancelled" "JobStatusFailed \<noteq> JobStatusCancelled"
  "JobStatusTimedOut \<noteq> JobStatusCancelled" "JobStatusComplete \<noteq> JobStatusFailed"
  by (simp_all add: JobStatusComplete_def JobStatusTimedOut_def JobStatusFailed_def
        JobStatusCancelled_def)

text \<open>Every error \<open>Execute\<close> returns is a value made by \<open>fmt.Errorf\<close>.\<close>

lemma Execute_run_error_fresh:
  "snd (Execute_run i c cfg env) = None \<or> (\<exists>m. snd (Execute_run i c cfg env) = Some (Errorf m))"
  by (simp add: Execute_run_def Let_def split: option.splits)

lemma Execute_error_fresh:
  "snd (fst (Execute e cfg env)) = None \<or> (\<exists>m. snd (fst (Execute e cfg env)) = Some (Errorf m))"
  using Execute_run_error_fresh by (simp add: Execute_def Let_def)

lemma set_terminal_status_cases:
  "job_Status (set_terminal_status fmtv p now err job) =
     (case err of None \<Rightarrow> JobStatusComplete
      | Some e \<Rightarrow> if e = DeadlineExceeded then JobStatusTimedOut else JobStatusFailed)"
  by (simp add: set_terminal_status_def Let_def split: option.splits)

lemma processJob_fst:
  "fst (processJob fmtv p ex f env job) =
     set_terminal_status fmtv p (je_now_end env)
       (case job_Application job of
          Some app \<Rightarrow> snd (fst (executeApplication p ex (je_proc env)
                        (job\<lparr>job_Status := JobStatusRunning, job_StartTime := je_now_start env\<rparr>) app))
        | None \<Rightarrow> snd (processRegularJob env
                        (job\<lparr>job_Status := JobStatusRunning, job_StartTime := je_now_start env\<rparr>)))
       (job\<lparr>job_Status := JobStatusRunning, job_StartTime := je_now_start env\<rparr>)"
  by (simp add: processJob_def Let_def split: option.splits prod.splits)

text \<open>A payload-only job whose deadline fires ends \<open>timed_out\<close> with the message of
  line 94.\<close>

lemma processJob_regular_deadline:
  assumes "job_Application job = None" "je_regular env = CtxDoneR DeadlineFired"
  shows "job_Status (fst (processJob fmtv p ex f env job)) = JobStatusTimedOut \<and>
         job_Error (fst (processJob fmtv p ex f env job)) =
           ''job timed out after '' @ fmtv (p_Timeout p)"
  using assms by (simp add: processJob_fst processRegularJob_def set_terminal_status_def Let_def)

text \<open>An application job ends \<open>complete\<close> or \<open>failed\<close>, whatever the supervisor observes:
  the error it gets back is never the value \<open>context.DeadlineExceeded\<close> itself.\<close>

lemma processJob_application_never_timed_out:
  assumes "job_Application job = Some app"
  shows "job_Status (fst (processJob fmtv p ex f env job)) \<in> {JobStatusComplete, JobStatusFailed}"
proof -
  let ?r = "snd (fst (executeApplication p ex (je_proc env)
                        (job\<lparr>job_Status := JobStatusRunning, job_StartTime := je_now_start env\<rparr>) app))"
  have "?r = None \<or> (\<exists>m. ?r = Some (Errorf m))"
    unfolding executeApplication_def Let_def by (rule Execute_error_fresh)
  then show ?thesis
    using assms by (auto simp: processJob_fst set_terminal_status_cases)
qed

text \<open>No run of \<open>processJob\<close> assigns \<open>cancelled\<close>.\<close>

lemma processJob_status_range:
  "job_Status (fst (processJob fmtv p ex f env job)) \<in>
     {JobStatusComplete, JobStatusFailed, JobStatusTimedOut}"
  by (simp add: processJob_fst set_terminal_status_cases split: option.splits)

text \<open>\<open>processJob\<close> does not write the statistics.\<close>

lemma processJob_in_stats:
  "processJob_in fmtv s name env job = Some (job', s') \<Longrightarrow> stats s' = stats s"
  by (auto simp: processJob_in_def Let_def split: option.splits prod.splits)

lemma dispatch_next_stats:
  "dispatch_next fmtv s name env = Some (job', s') \<Longrightarrow> stats s' = stats s"
  by (auto simp: dispatch_next_def dest!: processJob_in_stats split: option.splits prod.splits)

text \<open>
  C1. The property: every job whose run exceeds its channel's timeout ends with Status
  \<open>timed_out\<close> and Error "job timed out after ...", application jobs included. The code
  at the application job of the timeout scenario (\<open>sleep 1\<close> in a channel with a
  100 ms timeout, the deadline firing while the child runs): when the supervisor's
  kill succeeds \<open>Execute\<close> returns no error and the job ends \<open>complete\<close> with no
  Error; when the kill reports an error the job ends \<open>failed\<close>. The payload-only job
  in the same situation does end \<open>timed_out\<close>.
\<close>

theorem processJob_application_deadline_status:
  "submit_then_run job_j3 (job_env Slept killed_on_timeout) =
     Some (None, JobStatusComplete, [], Some 0) \<and>
   submit_then_run job_j3 (job_env Slept kill_fails) =
     Some (None, JobStatusFailed, ''execution failed: os: process already finished'', Some 0) \<and>
   submit_then_run job_j1 (job_env (CtxDoneR DeadlineFired) (exits_ok [])) =
     Some (None, JobStatusTimedOut, ''job timed out after 100ms'', Some 0)"
  by (simp add: run_defs job_j3_def job_j1_def)

text \<open>
  C2. The property: a job dequeued and not yet completed when the root context is
  cancelled ends with Status \<open>cancelled\<close>. The code at a payload-only job whose context
  is done because the parent was cancelled: it ends \<open>failed\<close> with Error
  "context canceled"; at an application job whose child exits on the interrupt: it
  ends \<open>failed\<close> with the supervisor's message.
\<close>

theorem processJob_cancellation_status:
  "submit_then_run job_j1 (job_env (CtxDoneR ParentCancelled) (exits_ok [])) =
     Some (None, JobStatusFailed, ''context canceled'', Some 0) \<and>
   submit_then_run job_j3 (job_env Slept interrupted) =
     Some (None, JobStatusFailed, ''execution failed: signal: interrupt'', Some 0)"
  by (simp add: run_defs job_j3_def job_j1_def)

text \<open>
  C3. The property: a job reaching \<open>failed\<close> or \<open>timed_out\<close> increments the channel's
  \<open>FailedJobs\<close>. The code at a payload-only job that times out and at an application job
  whose child exits with status 1: the job ends \<open>timed_out\<close>, respectively \<open>failed\<close>,
  and \<open>FailedJobs\<close> of its channel is still 0.
\<close>

theorem FailedJobs_after_failed_job:
  "submit_then_run job_j1 (job_env (CtxDoneR DeadlineFired) killed_on_timeout) =
     Some (None, JobStatusTimedOut, ''job timed out after 100ms'', Some 0) \<and>
   submit_then_run job_j3 (job_env Slept exits_1) =
     Some (None, JobStatusFailed, ''execution failed: exit status 1'', Some 0)"
  by (simp add: run_defs job_j3_def job_j1_def)

subsection \<open>Result of Execute\<close>

text \<open>The parts of the result construction that hold on every run: a child that exits
  with a non-zero status gives its exit code and an error; once the child has
  started, the captured output is in the result whether or not an error is
  returned.\<close>

lemma Execute_exit_error:
  assumes "start_result env = None" "wait_event env = ProcDone (Some (ExitError c m))"
  shows "res_ExitCode (fst (fst (Execute e cfg env))) = c \<and> snd (fst (Execute e cfg env)) \<noteq> None"
  using assms by (simp add: Execute_def Execute_run_def Let_def)

lemma Execute_output_kept:
  assumes "start_result env = None"
  shows "res_Stdout (fst (fst (Execute e cfg env))) =
           capture (ecfg_OutputLimit cfg) (stdout_writes env) \<and>
         res_Stderr (fst (fst (Execute e cfg env))) =
           capture (ecfg_OutputLimit cfg) (stderr_writes env)"
  using assms by (simp add: Execute_def Execute_run_def Let_def split: option.splits)

text \<open>A spawn failure returns before any exit code is assigned.\<close>

lemma Execute_spawn_failure:
  assumes "start_result env = Some err"
  shows "fst (Execute e cfg env) =
     (zero_ExecutionResult\<lparr>res_ExecutionID := new_execID e env, res_StartTime := now_start env\<rparr>,
      Some (Errorf (''failed to start process: '' @ Error err)))"
  using assms by (simp add: Execute_def Execute_run_def Let_def)

text \<open>When the interrupt cannot be delivered, the exit code follows the kill.\<close>

lemma Execute_signal_failure:
  assumes "start_result env = None" "wait_event env = CtxDone" "signal_result env = Some err"
  shows "res_ExitCode (fst (fst (Execute e cfg env))) =
           (case kill_result env of None \<Rightarrow> 0 | Some (ExitError c m) \<Rightarrow> c | Some _ \<Rightarrow> - 1)"
  using assms
  by (simp add: Execute_def Execute_run_def handleTimeout_def forceKill_def Let_def
        split: option.splits go_error.splits)

text \<open>
  C5. The property: when execution fails before the child exits (spawn error), the
  result's \<open>ExitCode\<close> is -1. The code at a command whose \<open>Start\<close> fails: \<open>Execute\<close> returns
  the error "failed to start process: ..." with \<open>ExitCode\<close> 0.
\<close>

theorem Execute_spawn_failure_exit_code:
  "res_ExitCode (fst (fst (Execute fresh_executor (echo_cfg 10) spawn_fails))) = 0 \<and>
   snd (fst (Execute fresh_executor (echo_cfg 10) spawn_fails)) =
     Some (Errorf
       ''failed to start process: fork/exec /no/such/binary: no such file or directory'')"
  by (simp add: Execute_spawn_failure spawn_fails_def exits_ok_def zero_ExecutionResult_def)

subsection \<open>Process registry\<close>

lemma Execute_registry:
  "processes (snd (Execute e cfg env)) = (processes e)(new_execID e env := None)"
  by (simp add: Execute_def Let_def register_def deregister_def)

lemma Executor_step_inv:
  assumes "Executor_step S S'" "dom (processes (sys_executor S)) \<subseteq> set (sys_inflight S)"
  shows "dom (processes (sys_executor S')) \<subseteq> set (sys_inflight S')"
  using assms
proof (induction rule: Executor_step.induct)
  case (exec_enter execID S env cmd)
  then show ?case by (auto simp: register_def subset_iff dom_def split: if_splits)
next
  case (exec_return execID S)
  have "x \<in> set (remove1 execID (sys_inflight S))"
    if "x \<in> dom (processes (sys_executor S))" "x \<noteq> execID" for x
    using that exec_return.prems by auto
  then show ?case by (auto simp: deregister_def dom_def split: if_splits)
next
  case (kill S execID env)
  then show ?case by (simp add: KillProcess_def split: option.splits)
next
  case (cleanup S)
  then show ?case by (simp add: Cleanup_def)
qed

lemma Executor_reachable_inv:
  "Executor_reachable S \<Longrightarrow> dom (processes (sys_executor S)) \<subseteq> set (sys_inflight S)"
proof (induction rule: Executor_reachable.induct)
  case (exec_init wd r e)
  then show ?case by (auto simp: NewExecutor_def split: option.splits if_splits)
next
  case (exec_step S S')
  then show ?case using Executor_step_inv by blast
qed

lemma one_inflight_reachable: "Executor_reachable one_inflight"
proof -
  have "NewExecutor ''/tmp/jobscheduler'' None = Inr fresh_executor"
    by (simp add: NewExecutor_def fresh_executor_def)
  then have r0: "Executor_reachable \<lparr>sys_executor = fresh_executor, sys_inflight = []\<rparr>"
    by (rule Executor_reachable.exec_init)
  have "Executor_step \<lparr>sys_executor = fresh_executor, sys_inflight = []\<rparr> one_inflight"
    using Executor_step.exec_enter
      [of "''exec_1000_0''" "\<lparr>sys_executor = fresh_executor, sys_inflight = []\<rparr>"
          "exits_ok []" echo_cmd]
    by (simp add: new_execID_fresh one_inflight_def)
  with r0 show ?thesis by (rule Executor_reachable.exec_step)
qed

text \<open>
  C10. In every state the executor reaches under overlapping calls, the IDs that
  \<open>ListProcesses\<close> reports are IDs of \<open>Execute\<close> calls in flight. \<open>Execute\<close> registers its
  ID first (the ID is listed right after), and whatever the run observes (spawn
  failure, exit, cancellation) the executor it leaves behind is the registered one
  with that ID removed, so the ID is not listed afterwards. \<open>KillProcess\<close> on an ID
  that is not listed returns the error "process ... not found" and the executor
  unchanged.
\<close>

theorem registry_only_inflight:
  "(Executor_reachable S \<longrightarrow> ListProcesses (sys_executor S) \<subseteq> set (sys_inflight S)) \<and>
   new_execID e env \<in> ListProcesses (register e (new_execID e env) cmd) \<and>
   snd (Execute e cfg env) =
     deregister (register e (new_execID e env)
        \<lparr>cmd_Path = ecfg_Path cfg, cmd_Args = ecfg_Args cfg, cmd_Process = False\<rparr>)
       (new_execID e env) \<and>
   new_execID e env \<notin> ListProcesses (snd (Execute e cfg env)) \<and>
   (execID \<notin> ListProcesses e \<longrightarrow>
      KillProcess e execID env' = (Some (Errorf (''process '' @ execID @ '' not found'')), e))"
proof -
  have inv: "Executor_reachable S \<longrightarrow> ListProcesses (sys_executor S) \<subseteq> set (sys_inflight S)"
    by (simp add: ListProcesses_def Executor_reachable_inv)
  have reg: "new_execID e env \<in> ListProcesses (register e (new_execID e env) cmd)"
    by (simp add: ListProcesses_def register_def)
  have ex: "snd (Execute e cfg env) =
     deregister (register e (new_execID e env)
        \<lparr>cmd_Path = ecfg_Path cfg, cmd_Args = ecfg_Args cfg, cmd_Process = False\<rparr>)
       (new_execID e env)"
    by (simp add: Execute_def Let_def)
  have gone: "new_execID e env \<notin> ListProcesses (snd (Execute e cfg env))"
    by (simp add: ListProcesses_def Execute_registry)
  have kill: "execID \<notin> ListProcesses e \<longrightarrow>
      KillProcess e execID env' = (Some (Errorf (''process '' @ execID @ '' not found'')), e)"
    by (auto simp: ListProcesses_def KillProcess_def dom_def)
  from inv reg ex gone kill show ?thesis by blast
qed

text \<open>One \<open>echo hi\<close> in flight on a fresh executor: the state is reachable and lists
  exactly that execution; a complete \<open>Execute\<close> leaves nothing listed; killing an
  unknown ID is refused.\<close>

theorem registry_only_inflight_witness:
  "Executor_reachable one_inflight \<and>
   ListProcesses (sys_executor one_inflight) = {''exec_1000_0''} \<and>
   set (sys_inflight one_inflight) = {''exec_1000_0''} \<and>
   ListProcesses (snd (Execute fresh_executor (echo_cfg 10) (exits_ok []))) = {} \<and>
   ''exec_7'' \<notin> ListProcesses fresh_executor \<and>
   KillProcess fresh_executor ''exec_7'' (exits_ok []) =
     (Some (Errorf ''process exec_7 not found''), fresh_executor)"
  using registry_only_inflight
    [of one_inflight fresh_executor "exits_ok []" echo_cmd "echo_cfg 10" "''exec_7''"
        "exits_ok []"]
    one_inflight_reachable
  by (simp add: ListProcesses_def one_inflight_def register_def deregister_def
        fresh_executor_def)

subsection \<open>Submission\<close>

lemma Config_Validate_None:
  "Config_Validate c = None \<Longrightarrow>
   1 \<le> cfg_DefaultWorkers c \<and> Second \<le> cfg_DefaultTimeout c \<and> 1 \<le> cfg_ChannelBufferSize c"
  by (simp add: Config_Validate_def split: if_splits)

lemma getOrCreateChannel_new:
  assumes "Config_Validate (config s) = None" "channels s (job_Channel job) = None"
  shows "getOrCreateChannel s job =
           Returns (new_Channel s job,
             s\<lparr>channels := (channels s)(job_Channel job \<mapsto> new_Channel s job),
               stats := (stats s)(job_Channel job \<mapsto> zero_ChannelStats),
               wg := wg s + 1\<rparr>)"
  using assms Config_Validate_None [of "config s"]
  by (simp add: getOrCreateChannel_def new_Channel_def NewProcessor_def make_chan_def Let_def)

lemma getOrCreateChannel_existing:
  "channels s (job_Channel job) = Some c \<Longrightarrow> getOrCreateChannel s job = Returns (c, s)"
  by (simp add: getOrCreateChannel_def)

lemma SubmitJob_invalid:
  "Validate job = Some err \<Longrightarrow>
   SubmitJob s now1 now2 job = Returns (Some (Errorf (''invalid job payload: '' @ Error err)), s)"
  by (simp add: SubmitJob_def)

lemma SubmitJob_full:
  assumes "Validate job = None" "channels s (job_Channel job) = Some c"
    "chan_cap (ch_Jobs c) \<le> length (chan_buf (ch_Jobs c))"
  shows "SubmitJob s now1 now2 job =
           Returns (Some (Errorf (''channel '' @ job_Channel job @ '' is full'')), s)"
  using assms by (simp add: SubmitJob_def getOrCreateChannel_existing try_send_def Let_def)

lemma SubmitJob_room:
  assumes "Validate job = None" "channels s (job_Channel job) = Some c"
    "stats s (job_Channel job) = Some st"
    "length (chan_buf (ch_Jobs c)) < chan_cap (ch_Jobs c)"
  shows "SubmitJob s now1 now2 job =
           Returns (None,
             s\<lparr>channels := (channels s)(job_Channel job \<mapsto>
                  c\<lparr>ch_Jobs := (ch_Jobs c)\<lparr>chan_buf := chan_buf (ch_Jobs c) @ [queued now1 job]\<rparr>\<rparr>),
               stats := (stats s)(job_Channel job \<mapsto>
                  st\<lparr>stats_TotalJobs := stats_TotalJobs st + 1, stats_LastJobTime := now2\<rparr>)\<rparr>)"
  using assms
  by (simp add: SubmitJob_def getOrCreateChannel_existing try_send_def Let_def
        updateStatsForNewJob_def queued_def)

lemma SubmitJob_new:
  assumes "Config_Validate (config s) = None" "Validate job = None"
    "channels s (job_Channel job) = None"
  shows "SubmitJob s now1 now2 job =
           Returns (None,
             s\<lparr>channels := (channels s)(job_Channel job \<mapsto>
                  (new_Channel s job)\<lparr>ch_Jobs :=
                     \<lparr>chan_buf = [queued now1 job],
                      chan_cap = nat (cfg_ChannelBufferSize (config s))\<rparr>\<rparr>),
               stats := (stats s)(job_Channel job \<mapsto>
                  zero_ChannelStats\<lparr>stats_TotalJobs := 1, stats_LastJobTime := now2\<rparr>),
               wg := wg s + 1\<rparr>)"
proof -
  have cap: "0 < nat (cfg_ChannelBufferSize (config s))"
    using Config_Validate_None [OF assms(1)] by simp
  have q: "ch_Jobs (new_Channel s job) =
             \<lparr>chan_buf = [], chan_cap = nat (cfg_ChannelBufferSize (config s))\<rparr>"
    by (simp add: new_Channel_def Let_def)
  show ?thesis
    using assms(2) cap
    by (simp add: SubmitJob_def getOrCreateChannel_new [OF assms(1,3)] try_send_def q
          updateStatsForNewJob_def queued_def zero_ChannelStats_def)
qed

lemma wf_stats:
  "wf_Scheduler s \<Longrightarrow> channels s name = Some c \<Longrightarrow> \<exists>st. stats s name = Some st"
  by (metis wf_Scheduler_def domD domI)

lemma wf_NewScheduler: "NewScheduler cfg env = Inr s \<Longrightarrow> wf_Scheduler s"
  by (auto simp: NewScheduler_def wf_Scheduler_def split: option.splits sum.splits)

lemma wf_SubmitJob:
  assumes "wf_Scheduler s"
  shows "\<exists>err s'. SubmitJob s now1 now2 job = Returns (err, s') \<and> wf_Scheduler s' \<and>
           config s' = config s"
proof (cases "Validate job")
  case (Some e)
  then show ?thesis using assms by (simp add: SubmitJob_invalid)
next
  case None
  note valid = this
  have cfg: "Config_Validate (config s) = None" using assms by (simp add: wf_Scheduler_def)
  show ?thesis
  proof (cases "channels s (job_Channel job)")
    case None
    show ?thesis
      using assms
      by (simp add: SubmitJob_new [OF cfg valid None] wf_Scheduler_def new_Channel_def Let_def)
  next
    case (Some c)
    obtain st where st: "stats s (job_Channel job) = Some st"
      using wf_stats [OF assms Some] by blast
    show ?thesis
    proof (cases "length (chan_buf (ch_Jobs c)) < chan_cap (ch_Jobs c)")
      case True
      have "dom (stats s) = dom (channels s)" using assms by (simp add: wf_Scheduler_def)
      then have "insert (job_Channel job) (dom (stats s)) = insert (job_Channel job) (dom (channels s))"
        by simp
      then show ?thesis
        using assms Some
        by (auto simp: SubmitJob_room [OF valid Some st True] wf_Scheduler_def)
    next
      case False
      then show ?thesis using assms by (simp add: SubmitJob_full [OF valid Some])
    qed
  qed
qed

lemma sint_inc:
  fixes x :: "64 word"
  assumes "sint x < 2 ^ 63 - 1"
  shows "sint (x + 1) = sint x + 1"
proof -
  have lo: "- (2 ^ 63) \<le> sint x" using sint_ge [of x] by simp
  have "sint (x + 1) = signed_take_bit 63 (sint x + 1)"
    by (simp add: sint_word_ariths)
  also have "\<dots> = sint x + 1"
    using lo assms by (intro signed_take_bit_int_eq_self) simp_all
  finally show ?thesis .
qed

lemma SubmitJob_cases:
  assumes wf: "wf_Scheduler s" and valid: "Validate job = None"
  shows "(queue_of s (job_Channel job) \<noteq> [] \<and>
          length (queue_of s (job_Channel job)) \<ge> nat (cfg_ChannelBufferSize (config s)) \<and>
          SubmitJob s now1 now2 job =
            Returns (Some (Errorf (''channel '' @ job_Channel job @ '' is full'')), s)) \<or>
         (length (queue_of s (job_Channel job)) < nat (cfg_ChannelBufferSize (config s)) \<and>
          (\<exists>s'. SubmitJob s now1 now2 job = Returns (None, s') \<and>
             queue_of s' (job_Channel job) = queue_of s (job_Channel job) @ [queued now1 job] \<and>
             TotalJobs_of s' (job_Channel job) = TotalJobs_of s (job_Channel job) + 1 \<and>
             LastJobTime_of s' (job_Channel job) = now2))"
proof -
  have cfg: "Config_Validate (config s) = None" using wf by (simp add: wf_Scheduler_def)
  have cap: "0 < nat (cfg_ChannelBufferSize (config s))"
    using Config_Validate_None [OF cfg] by simp
  show ?thesis
  proof (cases "channels s (job_Channel job)")
    case None
    then have "stats s (job_Channel job) = None"
      using wf by (metis wf_Scheduler_def domIff)
    then show ?thesis
      using None cap
      by (simp add: SubmitJob_new [OF cfg valid None] queue_of_def TotalJobs_of_def
            LastJobTime_of_def zero_ChannelStats_def)
  next
    case (Some c)
    obtain st where st: "stats s (job_Channel job) = Some st"
      using wf_stats [OF wf Some] by blast
    have capc: "chan_cap (ch_Jobs c) = nat (cfg_ChannelBufferSize (config s))"
      using wf Some by (simp add: wf_Scheduler_def)
    show ?thesis
    proof (cases "length (chan_buf (ch_Jobs c)) < chan_cap (ch_Jobs c)")
      case True
      then show ?thesis
        using Some st capc
        by (simp add: SubmitJob_room [OF valid Some st True] queue_of_def TotalJobs_of_def
              LastJobTime_of_def)
    next
      case False
      then have ne: "chan_buf (ch_Jobs c) \<noteq> []" using capc cap by auto
      from False show ?thesis
        using Some capc ne by (simp add: SubmitJob_full [OF valid Some] queue_of_def)
    qed
  qed
qed

text \<open>
  C4. For every \<open>SubmitJob\<close> of a valid job to a scheduler as \<open>NewScheduler\<close> and its
  operations leave it: if the queue of the job's channel already holds
  \<open>ChannelBufferSize\<close> jobs, the call returns the error "channel ... is full" and the
  scheduler unchanged; whenever the call returns an error the scheduler is unchanged,
  so the job is not enqueued and \<open>TotalJobs\<close> and \<open>LastJobTime\<close> are as before; whenever
  it returns no error the job (pending, with its start time) is at the back of the
  queue, \<open>TotalJobs\<close> is one more (as an \<open>int64\<close>: the same holds of its signed value
  unless the counter was at its maximum) and \<open>LastJobTime\<close> is the clock reading; and
  the call always returns (it does not panic).
\<close>

theorem SubmitJob_admission:
  assumes wf: "wf_Scheduler s" and valid: "Validate job = None"
  shows "(length (queue_of s (job_Channel job)) = nat (cfg_ChannelBufferSize (config s)) \<longrightarrow>
            SubmitJob s now1 now2 job =
              Returns (Some (Errorf (''channel '' @ job_Channel job @ '' is full'')), s)) \<and>
         (\<forall>err s'. SubmitJob s now1 now2 job = Returns (Some err, s') \<longrightarrow>
            s' = s \<and> queue_of s' (job_Channel job) = queue_of s (job_Channel job) \<and>
            TotalJobs_of s' (job_Channel job) = TotalJobs_of s (job_Channel job) \<and>
            LastJobTime_of s' (job_Channel job) = LastJobTime_of s (job_Channel job)) \<and>
         (\<forall>s'. SubmitJob s now1 now2 job = Returns (None, s') \<longrightarrow>
            queue_of s' (job_Channel job) = queue_of s (job_Channel job) @ [queued now1 job] \<and>
            TotalJobs_of s' (job_Channel job) = TotalJobs_of s (job_Channel job) + 1 \<and>
            (sint (TotalJobs_of s (job_Channel job)) < 2 ^ 63 - 1 \<longrightarrow>
               sint (TotalJobs_of s' (job_Channel job)) =
                 sint (TotalJobs_of s (job_Channel job)) + 1) \<and>
            LastJobTime_of s' (job_Channel job) = now2) \<and>
         (\<exists>err s'. SubmitJob s now1 now2 job = Returns (err, s'))"
  using SubmitJob_cases [OF wf valid, of now1 now2]
  by (elim disjE conjE exE) (simp_all add: sint_inc)

text \<open>With \<open>ChannelBufferSize = 1\<close>: the first submission of \<open>j1\<close> is admitted,
  \<open>TotalJobs\<close> is 1 and \<open>LastJobTime\<close> the reading 6; the queue now holds one job, and
  the second submission returns the queue-full error and the same scheduler.\<close>

lemma wf_small: "wf_Scheduler small"
  by (simp add: wf_Scheduler_def small_def started_def DefaultConfig_def Config_Validate_def
        Second_def)

lemma valid_j1: "Validate job_j1 = None"
  by (simp add: Validate_def job_j1_def)

lemma submit_small:
  "SubmitJob small 5 6 job_j1 = Returns (None, one_queued)"
  using SubmitJob_cases [OF wf_small valid_j1, of 5 6]
  by (auto simp: one_queued_def queue_of_def small_def started_def)

lemma wf_one_queued: "wf_Scheduler one_queued"
  using wf_SubmitJob [OF wf_small, of 5 6 job_j1] by (simp add: submit_small)

theorem SubmitJob_admission_witness:
  "wf_Scheduler small \<and> Validate job_j1 = None \<and>
   SubmitJob small 5 6 job_j1 = Returns (None, one_queued) \<and>
   queue_of one_queued ''a'' = [queued 5 job_j1] \<and>
   TotalJobs_of one_queued ''a'' = 1 \<and> LastJobTime_of one_queued ''a'' = 6 \<and>
   wf_Scheduler one_queued \<and>
   length (queue_of one_queued ''a'') = nat (cfg_ChannelBufferSize (config one_queued)) \<and>
   SubmitJob one_queued 7 8 job_j1 = Returns (Some (Errorf ''channel a is full''), one_queued)"
proof -
  have q: "queue_of small ''a'' = []" "TotalJobs_of small ''a'' = 0"
    by (simp_all add: queue_of_def TotalJobs_of_def small_def started_def)
  have n: "job_Channel job_j1 = ''a''" by (simp add: job_j1_def)
  have cfg: "config one_queued = config small"
    using wf_SubmitJob [OF wf_small, of 5 6 job_j1] by (simp add: submit_small)
  have cap: "nat (cfg_ChannelBufferSize (config small)) = 1"
    by (simp add: small_def started_def DefaultConfig_def)
  from SubmitJob_admission [OF wf_small valid_j1, of 5 6] submit_small
  have a: "queue_of one_queued ''a'' = [queued 5 job_j1]" "TotalJobs_of one_queued ''a'' = 1"
    "LastJobTime_of one_queued ''a'' = 6"
    by (simp_all add: q n)
  from SubmitJob_admission [OF wf_one_queued valid_j1, of 7 8] a cfg cap
  have b: "SubmitJob one_queued 7 8 job_j1 = Returns (Some (Errorf ''channel a is full''), one_queued)"
    by (simp add: n)
  from a b wf_small valid_j1 submit_small wf_one_queued cfg cap show ?thesis by simp
qed

subsection \<open>Channel settings\<close>

lemma SubmitJob_keeps_settings:
  assumes wf: "wf_Scheduler s" and ch: "channels s name = Some c"
    and sub: "SubmitJob s now1 now2 job = Returns (err, s')"
  shows "\<exists>c'. channels s' name = Some c' \<and> ch_Workers c' = ch_Workers c \<and>
           ch_Timeout c' = ch_Timeout c \<and> chan_cap (ch_Jobs c') = chan_cap (ch_Jobs c)"
proof (cases "Validate job")
  case (Some e)
  then show ?thesis using ch sub by (simp add: SubmitJob_invalid)
next
  case None
  note valid = this
  have cfg: "Config_Validate (config s) = None" using wf by (simp add: wf_Scheduler_def)
  show ?thesis
  proof (cases "channels s (job_Channel job)")
    case None
    then have "name \<noteq> job_Channel job" using ch by auto
    then show ?thesis
      using sub ch by (auto simp: SubmitJob_new [OF cfg valid None])
  next
    case (Some d)
    obtain st where st: "stats s (job_Channel job) = Some st"
      using wf_stats [OF wf Some] by blast
    show ?thesis
    proof (cases "length (chan_buf (ch_Jobs d)) < chan_cap (ch_Jobs d)")
      case True
      then show ?thesis
        using sub ch Some by (auto simp: SubmitJob_room [OF valid Some st True])
    next
      case False
      then show ?thesis using sub ch by (simp add: SubmitJob_full [OF valid Some])
    qed
  qed
qed

lemma SubmitJobs_keep_settings:
  assumes "wf_Scheduler s" "channels s name = Some c"
  shows "\<exists>s' c'. SubmitJobs s later = Returns s' \<and> wf_Scheduler s' \<and>
           channels s' name = Some c' \<and> ch_Workers c' = ch_Workers c \<and>
           ch_Timeout c' = ch_Timeout c \<and> chan_cap (ch_Jobs c') = chan_cap (ch_Jobs c)"
  using assms
proof (induction later arbitrary: s c)
  case Nil
  then show ?case by simp
next
  case (Cons sub later)
  obtain now1 now2 job where sub: "sub = (now1, now2, job)" by (cases sub) auto
  obtain err s1 where s1: "SubmitJob s now1 now2 job = Returns (err, s1)" "wf_Scheduler s1"
    using wf_SubmitJob [OF Cons.prems(1)] by blast
  obtain c1 where c1: "channels s1 name = Some c1" "ch_Workers c1 = ch_Workers c"
      "ch_Timeout c1 = ch_Timeout c" "chan_cap (ch_Jobs c1) = chan_cap (ch_Jobs c)"
    using SubmitJob_keeps_settings [OF Cons.prems s1(1)] by blast
  from Cons.IH [OF s1(2) c1(1)] show ?case by (simp add: sub s1(1) c1)
qed

text \<open>
  C7. In a scheduler as \<open>NewScheduler\<close> and its operations leave it: the first
  submission of a valid job for a channel name is admitted and creates the channel
  with \<open>Workers = job.Workers\<close> if that is positive, else \<open>DefaultWorkers\<close>, with
  \<open>Timeout = job.Timeout\<close> if that is positive, else \<open>DefaultTimeout\<close>, and with a queue
  of capacity \<open>ChannelBufferSize\<close>; and once a channel exists, any run of later
  submissions (to this or any other channel, valid or not, whatever hints they
  carry) returns and leaves the channel's \<open>Workers\<close>, \<open>Timeout\<close> and capacity as they
  were.
\<close>

theorem channel_settings_fixed_at_creation:
  assumes wf: "wf_Scheduler s"
  shows "(Validate job = None \<and> channels s (job_Channel job) = None \<longrightarrow>
           (\<exists>s' c. SubmitJob s now1 now2 job = Returns (None, s') \<and>
              channels s' (job_Channel job) = Some c \<and>
              ch_Workers c = (if 0 < job_Workers job then job_Workers job
                              else cfg_DefaultWorkers (config s)) \<and>
              ch_Timeout c = (if 0 < job_Timeout job then job_Timeout job
                              else cfg_DefaultTimeout (config s)) \<and>
              chan_cap (ch_Jobs c) = nat (cfg_ChannelBufferSize (config s)))) \<and>
         (\<forall>c. channels s name = Some c \<longrightarrow>
           (\<exists>s' c'. SubmitJobs s later = Returns s' \<and> channels s' name = Some c' \<and>
              ch_Workers c' = ch_Workers c \<and> ch_Timeout c' = ch_Timeout c \<and>
              chan_cap (ch_Jobs c') = chan_cap (ch_Jobs c)))"
proof (intro conjI impI allI)
  assume a: "Validate job = None \<and> channels s (job_Channel job) = None"
  have cfg: "Config_Validate (config s) = None" using wf by (simp add: wf_Scheduler_def)
  show "\<exists>s' c. SubmitJob s now1 now2 job = Returns (None, s') \<and>
              channels s' (job_Channel job) = Some c \<and>
              ch_Workers c = (if 0 < job_Workers job then job_Workers job
                              else cfg_DefaultWorkers (config s)) \<and>
              ch_Timeout c = (if 0 < job_Timeout job then job_Timeout job
                              else cfg_DefaultTimeout (config s)) \<and>
              chan_cap (ch_Jobs c) = nat (cfg_ChannelBufferSize (config s))"
    using a by (simp add: SubmitJob_new [OF cfg] new_Channel_def Let_def)
next
  fix c assume "channels s name = Some c"
  from SubmitJobs_keep_settings [OF wf this, of later]
  show "\<exists>s' c'. SubmitJobs s later = Returns s' \<and> channels s' name = Some c' \<and>
              ch_Workers c' = ch_Workers c \<and> ch_Timeout c' = ch_Timeout c \<and>
              chan_cap (ch_Jobs c') = chan_cap (ch_Jobs c)"
    by blast
qed

lemma wf_started: "wf_Scheduler started"
  using NewScheduler_started by (rule wf_NewScheduler)

text \<open>\<open>j3\<close> carries no workers hint and a timeout hint of 100 ms: its channel gets the
  default of 1 worker, 100 ms and capacity 1000; a later submission to the channel
  asking for 5 workers and 7 s changes neither.\<close>

theorem channel_settings_fixed_at_creation_witness:
  "wf_Scheduler started \<and> Validate job_j3 = None \<and> channels started ''c'' = None \<and>
   (\<exists>s' c. SubmitJob started 5 6 job_j3 = Returns (None, s') \<and>
      channels s' ''c'' = Some c \<and> ch_Workers c = 1 \<and> ch_Timeout c = 100 * Millisecond \<and>
      chan_cap (ch_Jobs c) = 1000 \<and>
      (\<exists>s'' c'. SubmitJobs s'
           [(7, 8, job_j3\<lparr>job_ID := ''j4'', job_Workers := 5, job_Timeout := 7 * Second\<rparr>)] =
             Returns s'' \<and>
         channels s'' ''c'' = Some c' \<and> ch_Workers c' = 1 \<and>
         ch_Timeout c' = 100 * Millisecond))"
proof -
  have v: "Validate job_j3 = None" by (simp add: Validate_def job_j3_def)
  have n: "job_Channel job_j3 = ''c''" by (simp add: job_j3_def)
  have none: "channels started ''c'' = None" by (simp add: started_def)
  have w: "job_Workers job_j3 = 0" "job_Timeout job_j3 = 100 * Millisecond"
    "(0 < 100 * Millisecond) = True"
    by (simp_all add: job_j3_def Millisecond_def)
  have d: "cfg_DefaultWorkers (config started) = 1"
    "nat (cfg_ChannelBufferSize (config started)) = 1000"
    by (simp_all add: started_def DefaultConfig_def)
  from channel_settings_fixed_at_creation [OF wf_started, of job_j3 5 6 "''c''" "[]"] v none
  have "\<exists>s' c. SubmitJob started 5 6 job_j3 = Returns (None, s') \<and>
      channels s' ''c'' = Some c \<and> ch_Workers c = 1 \<and> ch_Timeout c = 100 * Millisecond \<and>
      chan_cap (ch_Jobs c) = 1000"
    by (simp add: n w d)
  then obtain s' c where 1: "SubmitJob started 5 6 job_j3 = Returns (None, s')"
      "channels s' ''c'' = Some c" "ch_Workers c = 1" "ch_Timeout c = 100 * Millisecond"
      "chan_cap (ch_Jobs c) = 1000"
    by blast
  have wf': "wf_Scheduler s'"
    using wf_SubmitJob [OF wf_started, of 5 6 job_j3] by (simp add: 1)
  from channel_settings_fixed_at_creation [OF wf', of _ _ _ "''c''"] 1
  have "\<exists>s'' c'. SubmitJobs s'
           [(7, 8, job_j3\<lparr>job_ID := ''j4'', job_Workers := 5, job_Timeout := 7 * Second\<rparr>)] =
             Returns s'' \<and>
         channels s'' ''c'' = Some c' \<and> ch_Workers c' = 1 \<and>
         ch_Timeout c' = 100 * Millisecond"
    by fastforce
  with 1 v none wf_started show ?thesis by blast
qed

subsection \<open>Shutdown\<close>

text \<open>
  C9, as the code has it. A second \<open>Shutdown()\<close> after a first one has returned
  leaves the scheduler exactly as the first call left it, and returns the error
  "failed to close process log: close <path>: file already closed", whatever the
  first call returned and whatever closing reports.
\<close>

theorem Shutdown_twice:
  "Shutdown (snd (Shutdown s r1)) r2 =
     (Some (Errorf (''failed to close process log: close '' @ file_name (processLog s) @
                    '': file already closed'')),
      snd (Shutdown s r1))"
  by (simp add: Shutdown_def File_Close_def Cleanup_def Let_def split: option.splits)

text \<open>The property as stated (the second call is a no-op or returns the same status as
  the first) fails on a fresh scheduler: the first \<open>Shutdown()\<close> returns \<open>nil\<close>, the
  second returns an error.\<close>

theorem Shutdown_twice_counterexample:
  "fst (Shutdown started None) = None \<and>
   fst (Shutdown (snd (Shutdown started None)) None) =
     Some (Errorf ''failed to close process log: close processing.log: file already closed'') \<and>
   fst (Shutdown (snd (Shutdown started None)) None) \<noteq> fst (Shutdown started None)"
  by (simp add: Shutdown_def File_Close_def Cleanup_def Let_def started_def)

subsection \<open>Worker pool\<close>

lemmas lane_defs =
  set_Jobs_def set_workerPool_def set_activeJobs_def pool_of_def active_of_def spawning_def

lemma try_send_Some: "try_send c x = Some q \<Longrightarrow>
   q = c\<lparr>chan_buf := chan_buf c @ [x]\<rparr> \<and> length (chan_buf c) < chan_cap c"
  by (auto simp: try_send_def split: if_splits)

lemma recv_Some:
  "recv c = Some (x, q) \<Longrightarrow> \<exists>xs. chan_buf c = x # xs \<and> q = c\<lparr>chan_buf := xs\<rparr>"
  by (auto simp: recv_def split: list.splits)

lemma Ball_list_update:
  "\<forall>t \<in> set xs. P t \<Longrightarrow> P x \<Longrightarrow> \<forall>t \<in> set (xs[i := x]). P t"
  using set_update_subset_insert [of xs i x] by auto

lemma Ball_remove_nth:
  "\<forall>t \<in> set xs. P t \<Longrightarrow> \<forall>t \<in> set (take i xs @ drop (Suc i) xs). P t"
  by (auto dest: in_set_takeD in_set_dropD)

lemma status_neq_running:
  "JobStatusPending \<noteq> JobStatusRunning" "JobStatusComplete \<noteq> JobStatusRunning"
  "JobStatusFailed \<noteq> JobStatusRunning" "JobStatusTimedOut \<noteq> JobStatusRunning"
  by (simp_all add: JobStatusPending_def JobStatusRunning_def JobStatusComplete_def
        JobStatusFailed_def JobStatusTimedOut_def)

lemma terminal_not_running:
  "job_Status (set_terminal_status fmtv p now err job) \<noteq> JobStatusRunning"
  by (simp add: set_terminal_status_cases status_neq_running split: option.splits)

lemma try_send_cap: "try_send c x = Some q \<Longrightarrow> chan_cap q = chan_cap c"
  by (auto simp: try_send_def split: if_splits)

lemma recv_cap: "recv c = Some (x, q) \<Longrightarrow> chan_cap q = chan_cap c"
  by (auto simp: recv_def split: list.splits)

lemma Start_step_frame:
  assumes "Start_step fmtv L L'"
  shows "chan_cap (pool_of L') = chan_cap (pool_of L) \<and>
         ch_Workers (lane_ch L') = ch_Workers (lane_ch L) \<and>
         ch_Timeout (lane_ch L') = ch_Timeout (lane_ch L) \<and>
         chan_cap (ch_Jobs (lane_ch L')) = chan_cap (ch_Jobs (lane_ch L))"
  using assms
proof (induction rule: Start_step.induct)
  case (submit L now job q)
  then show ?case by (simp add: lane_defs try_send_cap)
next
  case (dequeue L job q)
  then show ?case by (simp add: lane_defs recv_cap)
next
  case (acquire L job pool)
  then show ?case using try_send_cap [of "pool_of L" "()" pool] by (simp add: lane_defs)
next
  case (release i L job pool)
  then show ?case using recv_cap [of "pool_of L" "()" pool] by (simp add: lane_defs)
qed (simp_all add: lane_defs)

lemma Start_step_inv:
  assumes "Start_step fmtv L L'" "Lane_inv L"
  shows "Lane_inv L'"
  using assms
proof (induction rule: Start_step.induct)
  case (submit L now job q)
  from submit(1) have q: "chan_buf q = chan_buf (ch_Jobs (lane_ch L)) @ [queued now job]"
    by (auto simp: try_send_def split: if_splits)
  from submit(2) show ?case
    by (simp add: Lane_inv_def lane_defs q queued_def)
next
  case (cancel L)
  then show ?case by (simp add: Lane_inv_def lane_defs)
next
  case (stop L)
  then show ?case by (simp add: Lane_inv_def lane_defs)
next
  case (dequeue L job q)
  from dequeue(2) have q: "chan_buf (ch_Jobs (lane_ch L)) = job # chan_buf q"
    by (auto simp: recv_def split: list.splits)
  from dequeue(1,3) show ?case
    by (simp add: Lane_inv_def lane_defs q)
next
  case (acquire L job pool)
  from acquire(2) have p: "chan_buf pool = chan_buf (pool_of L) @ [()]"
      "length (chan_buf (pool_of L)) < chan_cap (pool_of L)" "chan_cap pool = chan_cap (pool_of L)"
    by (auto simp: try_send_def split: if_splits)
  from acquire(1,3) p show ?case
    by (simp add: Lane_inv_def lane_defs)
next
  case (spawn L job)
  then show ?case
    by (simp add: Lane_inv_def lane_defs status_neq_running)
next
  case (enter i L job now)
  let ?P = "\<lambda>t. (snd t = InProcessJob) = (job_Status (fst t) = JobStatusRunning)"
  from enter have "\<forall>t \<in> set (lane_tasks L). ?P t" by (simp add: Lane_inv_def)
  then have "\<forall>t \<in> set ((lane_tasks L)
       [i := (job\<lparr>job_Status := JobStatusRunning, job_StartTime := now\<rparr>, InProcessJob)]). ?P t"
    by (rule Ball_list_update) simp
  with enter show ?case by (simp add: Lane_inv_def lane_defs)
next
  case (leave i L job now err)
  let ?P = "\<lambda>t. (snd t = InProcessJob) = (job_Status (fst t) = JobStatusRunning)"
  from leave have "\<forall>t \<in> set (lane_tasks L). ?P t" by (simp add: Lane_inv_def)
  then have "\<forall>t \<in> set ((lane_tasks L)
       [i := (set_terminal_status fmtv (ch_processor (lane_ch L)) now err job, Releasing)]). ?P t"
    by (rule Ball_list_update) (simp add: terminal_not_running)
  with leave show ?case by (simp add: Lane_inv_def lane_defs)
next
  case (release i L job pool)
  let ?P = "\<lambda>t. (snd t = InProcessJob) = (job_Status (fst t) = JobStatusRunning)"
  from release have "\<forall>t \<in> set (lane_tasks L). ?P t" by (simp add: Lane_inv_def)
  then have P: "\<forall>t \<in> set (take i (lane_tasks L) @ drop (Suc i) (lane_tasks L)). ?P t"
    by (rule Ball_remove_nth)
  from release have len: "length (take i (lane_tasks L) @ drop (Suc i) (lane_tasks L)) =
      length (lane_tasks L) - 1"
    by auto
  from release(3) have p: "chan_buf (pool_of L) = () # chan_buf pool"
      "chan_cap pool = chan_cap (pool_of L)"
    by (auto simp: recv_def split: list.splits)
  from release(1,4) p
  have n: "length (chan_buf pool) = length (lane_tasks L) - 1 + spawning L"
    "length (chan_buf pool) \<le> chan_cap pool"
    by (auto simp: Lane_inv_def)
  from release(4) P len n show ?case
    by (simp add: Lane_inv_def lane_defs)
qed

lemma Start_reachable_inv:
  assumes "Start_reachable fmtv c L"
    and "chan_buf (workerPool (ch_processor c)) = []" "chan_buf (ch_Jobs c) = []"
  shows "Lane_inv L \<and> chan_cap (pool_of L) = chan_cap (workerPool (ch_processor c)) \<and>
         ch_Workers (lane_ch L) = ch_Workers c \<and> ch_Timeout (lane_ch L) = ch_Timeout c \<and>
         chan_cap (ch_Jobs (lane_ch L)) = chan_cap (ch_Jobs c)"
  using assms
proof (induction rule: Start_reachable.induct)
  case init
  then show ?case by (simp add: Lane_inv_def init_Lane_def pool_of_def spawning_def)
next
  case (step L L')
  then show ?case using Start_step_inv Start_step_frame by metis
qed

lemma running_le_tasks: "running L \<le> length (lane_tasks L)"
  by (simp add: running_def)

lemma running_by_status:
  "Lane_inv L \<Longrightarrow>
   running L = length (filter (\<lambda>t. job_Status (fst t) = JobStatusRunning) (lane_tasks L))"
  unfolding running_def Lane_inv_def
  by (intro arg_cong [where f = length] filter_cong) auto

lemma new_Channel_Workers:
  "Config_Validate (config s) = None \<Longrightarrow>
   1 \<le> ch_Workers (new_Channel s job) \<and>
   chan_cap (workerPool (ch_processor (new_Channel s job))) = nat (ch_Workers (new_Channel s job)) \<and>
   chan_buf (workerPool (ch_processor (new_Channel s job))) = [] \<and>
   chan_buf (ch_Jobs (new_Channel s job)) = []"
  using Config_Validate_None [of "config s"] by (simp add: new_Channel_def Let_def)

text \<open>
  C8. For a scheduler whose configuration has passed \<open>Validate\<close> and a channel name
  it does not have yet, \<open>getOrCreateChannel\<close> returns a channel \<open>c\<close> with
  \<open>Workers \<ge> 1\<close> whose worker pool is a semaphore of capacity \<open>Workers\<close>; and in every
  state that the channel's dispatcher and job goroutines reach from there, under any
  interleaving with submissions and cancellation, \<open>Workers\<close> is unchanged, the tokens
  held in the pool are exactly as many as the job goroutines alive plus the one of
  a goroutine about to be started (a token is put in before a goroutine is started
  and taken out when it ends), the goroutines alive are at most \<open>Workers\<close>, and so is
  the number of jobs inside \<open>processJob\<close>, which is the number of jobs whose \<open>Status\<close>
  is \<open>running\<close>.
\<close>

theorem running_jobs_within_Workers:
  assumes cfg: "Config_Validate (config s) = None"
    and new: "channels s (job_Channel job) = None"
  shows "\<exists>c s'. getOrCreateChannel s job = Returns (c, s') \<and>
           channels s' (job_Channel job) = Some c \<and>
           1 \<le> ch_Workers c \<and>
           chan_cap (workerPool (ch_processor c)) = nat (ch_Workers c) \<and>
           (\<forall>L. Start_reachable fmtv c L \<longrightarrow>
              ch_Workers (lane_ch L) = ch_Workers c \<and>
              chan_cap (pool_of L) = nat (ch_Workers c) \<and>
              length (chan_buf (pool_of L)) = length (lane_tasks L) + spawning L \<and>
              int (length (lane_tasks L)) \<le> ch_Workers c \<and>
              int (running L) \<le> ch_Workers c \<and>
              running L =
                length (filter (\<lambda>t. job_Status (fst t) = JobStatusRunning) (lane_tasks L)))"
proof -
  let ?c = "new_Channel s job"
  note w = new_Channel_Workers [OF cfg, of job]
  have reach: "ch_Workers (lane_ch L) = ch_Workers ?c \<and>
              chan_cap (pool_of L) = nat (ch_Workers ?c) \<and>
              length (chan_buf (pool_of L)) = length (lane_tasks L) + spawning L \<and>
              int (length (lane_tasks L)) \<le> ch_Workers ?c \<and>
              int (running L) \<le> ch_Workers ?c \<and>
              running L =
                length (filter (\<lambda>t. job_Status (fst t) = JobStatusRunning) (lane_tasks L))"
    if r: "Start_reachable fmtv ?c L" for L
  proof -
    from Start_reachable_inv [OF r] w
    have inv: "Lane_inv L" and cap: "chan_cap (pool_of L) = nat (ch_Workers ?c)"
      and wk: "ch_Workers (lane_ch L) = ch_Workers ?c"
      by simp_all
    from inv have len: "length (chan_buf (pool_of L)) = length (lane_tasks L) + spawning L"
      "length (chan_buf (pool_of L)) \<le> chan_cap (pool_of L)"
      by (simp_all add: Lane_inv_def)
    have tasks: "int (length (lane_tasks L)) \<le> ch_Workers ?c"
      using len cap w by linarith
    have run: "int (running L) \<le> ch_Workers ?c"
      using tasks running_le_tasks [of L] by linarith
    from wk cap len(1) tasks run running_by_status [OF inv] show ?thesis by simp
  qed
  let ?s' = "s\<lparr>channels := (channels s)(job_Channel job \<mapsto> ?c),
               stats := (stats s)(job_Channel job \<mapsto> zero_ChannelStats),
               wg := wg s + 1\<rparr>"
  have "getOrCreateChannel s job = Returns (?c, ?s')"
    by (rule getOrCreateChannel_new [OF cfg new])
  moreover have "channels ?s' (job_Channel job) = Some ?c" by simp
  ultimately show ?thesis
    using w reach by blast
qed

text \<open>The fresh scheduler and \<open>j1\<close>: the channel gets 1 worker, and the state with
  \<open>j1\<close> running and one token held is reachable.\<close>

lemma lane_j1_running_reachable:
  "Start_reachable fmt_ms (new_Channel started job_j1) lane_j1_running"
proof -
  let ?c = "new_Channel started job_j1"
  let ?j = "queued 5 job_j1"
  let ?q1 = "\<lparr>chan_buf = [?j], chan_cap = 1000\<rparr>"
  let ?q0 = "\<lparr>chan_buf = [], chan_cap = 1000\<rparr> :: JobPayload chan"
  have c: "ch_Jobs ?c = ?q0" "workerPool (ch_processor ?c) = \<lparr>chan_buf = [], chan_cap = 1\<rparr>"
    "activeJobs (ch_processor ?c) = Map.empty"
    by (simp_all add: new_Channel_def Let_def started_def DefaultConfig_def job_j1_def)
  let ?L0 = "init_Lane ?c"
  let ?L1 = "set_Jobs ?L0 ?q1"
  let ?L2 = "(set_Jobs ?L1 ?q0)\<lparr>lane_disp := Acquiring ?j\<rparr>"
  let ?La = "(set_workerPool ?L2 \<lparr>chan_buf = [()], chan_cap = 1\<rparr>)\<lparr>lane_disp := Spawning ?j\<rparr>"
  let ?L3 = "?La\<lparr>lane_disp := Selecting, lane_tasks := lane_tasks ?La @ [(?j, Spawned)]\<rparr>"
  let ?L4 = "(set_activeJobs ?L3 ((active_of ?L3)(job_ID ?j \<mapsto> ?j)))
          \<lparr>lane_tasks := (lane_tasks ?L3)
             [0 := (?j\<lparr>job_Status := JobStatusRunning, job_StartTime := 10\<rparr>, InProcessJob)]\<rparr>"
  have r0: "Start_reachable fmt_ms ?c ?L0" by (rule Start_reachable.init)
  have s1: "Start_step fmt_ms ?L0 ?L1"
    by (rule Start_step.submit [where now = 5 and job = job_j1])
       (simp add: try_send_def init_Lane_def c)
  have s2: "Start_step fmt_ms ?L1 ?L2"
    by (rule Start_step.dequeue) (simp_all add: recv_def init_Lane_def set_Jobs_def)
  have sa: "Start_step fmt_ms ?L2 ?La"
    by (rule Start_step.acquire [where job = ?j])
       (simp_all add: try_send_def init_Lane_def set_Jobs_def pool_of_def c)
  have s3: "Start_step fmt_ms ?La ?L3"
    by (rule Start_step.spawn [where job = ?j]) simp
  have s4: "Start_step fmt_ms ?L3 ?L4"
    by (rule Start_step.enter [where i = 0 and job = ?j])
       (simp_all add: init_Lane_def set_Jobs_def set_workerPool_def)
  have eq: "?L4 = lane_j1_running"
    by (simp add: lane_j1_running_def init_Lane_def lane_defs queued_def job_j1_def
          new_Channel_def Let_def started_def DefaultConfig_def)
  from r0 s1 have "Start_reachable fmt_ms ?c ?L1" by (rule Start_reachable.step)
  then have "Start_reachable fmt_ms ?c ?L2" using s2 by (rule Start_reachable.step)
  then have "Start_reachable fmt_ms ?c ?La" using sa by (rule Start_reachable.step)
  then have "Start_reachable fmt_ms ?c ?L3" using s3 by (rule Start_reachable.step)
  then have "Start_reachable fmt_ms ?c ?L4" using s4 by (rule Start_reachable.step)
  then show ?thesis by (simp only: eq)
qed

theorem running_jobs_within_Workers_witness:
  "Config_Validate (config started) = None \<and> channels started (job_Channel job_j1) = None \<and>
   (\<exists>s'. getOrCreateChannel started job_j1 = Returns (new_Channel started job_j1, s')) \<and>
   ch_Workers (new_Channel started job_j1) = 1 \<and>
   Start_reachable fmt_ms (new_Channel started job_j1) lane_j1_running \<and>
   running lane_j1_running = 1 \<and>
   length (chan_buf (pool_of lane_j1_running)) = 1"
proof -
  have cfg: "Config_Validate (config started) = None"
    by (simp add: started_def DefaultConfig_def Config_Validate_def Second_def)
  have new: "channels started (job_Channel job_j1) = None" by (simp add: started_def)
  have w: "ch_Workers (new_Channel started job_j1) = 1"
    by (simp add: new_Channel_def Let_def started_def DefaultConfig_def job_j1_def)
  have run: "running lane_j1_running = 1"
    by (simp add: running_def lane_j1_running_def)
  from running_jobs_within_Workers [OF cfg new, of fmt_ms]
    getOrCreateChannel_new [OF cfg new] lane_j1_running_reachable
  have "length (chan_buf (pool_of lane_j1_running)) =
          length (lane_tasks lane_j1_running) + spawning lane_j1_running"
    by auto
  then have "length (chan_buf (pool_of lane_j1_running)) = 1"
    by (simp add: lane_j1_running_def spawning_def)
  with cfg new w run lane_j1_running_reachable getOrCreateChannel_new [OF cfg new]
  show ?thesis by simp
qed

subsection \<open>The scheduler invariant under the other operations\<close>

text \<open>\<open>wf_Scheduler\<close> holds of what \<open>NewScheduler\<close> returns and is kept by \<open>SubmitJob\<close>
  (above), by \<open>Shutdown\<close> and by a processor receiving and running a job.\<close>

lemma wf_Shutdown: "wf_Scheduler s \<Longrightarrow> wf_Scheduler (snd (Shutdown s r))"
  by (simp add: Shutdown_def wf_Scheduler_def Let_def split: prod.splits option.splits)

lemma wf_processJob_in:
  assumes "wf_Scheduler s" "processJob_in fmtv s name env job = Some (job', s')"
  shows "wf_Scheduler s'"
proof -
  from assms(2) obtain ch p' ex' f' where ch: "channels s name = Some ch"
    and s': "s' = s\<lparr>executor := ex', processLog := f',
                     channels := (channels s)(name \<mapsto> ch\<lparr>ch_processor := p'\<rparr>)\<rparr>"
    by (auto simp: processJob_in_def Let_def split: option.splits prod.splits)
  from ch have "insert name (dom (channels s)) = dom (channels s)" by auto
  with assms(1) ch show ?thesis by (auto simp: wf_Scheduler_def s')
qed

lemma wf_dispatch_next:
  assumes "wf_Scheduler s" "dispatch_next fmtv s name env = Some (job', s')"
  shows "wf_Scheduler s'"
proof -
  from assms(2) obtain ch job q where ch: "channels s name = Some ch"
    and r: "recv (ch_Jobs ch) = Some (job, q)"
    and p: "processJob_in fmtv (s\<lparr>channels := (channels s)(name \<mapsto> ch\<lparr>ch_Jobs := q\<rparr>)\<rparr>)
              name env job = Some (job', s')"
    by (auto simp: dispatch_next_def split: option.splits prod.splits)
  from ch have "insert name (dom (channels s)) = dom (channels s)" by auto
  with assms(1) ch recv_cap [OF r]
  have "wf_Scheduler (s\<lparr>channels := (channels s)(name \<mapsto> ch\<lparr>ch_Jobs := q\<rparr>)\<rparr>)"
    by (auto simp: wf_Scheduler_def)
  then show ?thesis using p by (rule wf_processJob_in)
qed

end
